theory Spec2Isabelle
  imports Complex_Main "HOL-Library.Sublist" "HOL-Library.List_Lexorder"
    "HOL-Library.Product_Lexorder" "HOL-Library.Multiset"
begin

section \<open>Python values, exceptions and the built-ins the code relies on\<close>

text \<open>
  The tools in \<^verbatim>\<open>tools/zfs.py\<close> receive deserialised API responses of unknown shape and
  hand dictionaries to the renderers of \<^verbatim>\<open>formatting/templates.py\<close>. A response is a value
  of \<open>pyval\<close>. Strings are sequences of UTF-8 bytes, a \<open>dict\<close> is an association list in
  insertion order with string keys. A \<open>float\<close> is a finite double with its exact rational
  value (\<open>Fin 0\<close> is the positive zero), the negative zero, an infinity or NaN.
\<close>

datatype pyfloat = Fin rat | NegZero | PosInf | NegInf | NaN

datatype pyval =
    PNone
  | PBool bool
  | PInt int
  | PFloat pyfloat
  | PStr string
  | PList "pyval list"
  | PDict "(string \<times> pyval) list"

text \<open>Every exception is a value; \<open>External\<close> is whatever the API client raises.\<close>

datatype error =
    KeyError string
  | TypeError
  | AttributeError
  | ValueError
  | ZeroDivisionError
  | OverflowError
  | External string

text \<open>The failure reported at an operation boundary: operation name and cause.\<close>

datatype failure = Failure string error

datatype level = Debug | Warning | Error

datatype logarg = AVal pyval | AErr error

type_synonym log_entry = "level \<times> string \<times> logarg list"

definition bindE :: "error + 'a \<Rightarrow> ('a \<Rightarrow> error + 'b) \<Rightarrow> error + 'b" where
  "bindE m f = (case m of Inl e \<Rightarrow> Inl e | Inr x \<Rightarrow> f x)"

text \<open>\<^verbatim>\<open>type(v).__name__\<close>\<close>

fun type_name :: "pyval \<Rightarrow> string" where
  "type_name PNone = ''NoneType''"
| "type_name (PBool _) = ''bool''"
| "type_name (PInt _) = ''int''"
| "type_name (PFloat _) = ''float''"
| "type_name (PStr _) = ''str''"
| "type_name (PList _) = ''list''"
| "type_name (PDict _) = ''dict''"

text \<open>Truth value of a value in a condition (\<^verbatim>\<open>if v:\<close>, \<^verbatim>\<open>not v\<close>, \<^verbatim>\<open>a and b\<close>).\<close>

fun py_truthy :: "pyval \<Rightarrow> bool" where
  "py_truthy PNone = False"
| "py_truthy (PBool b) = b"
| "py_truthy (PInt i) = (i \<noteq> 0)"
| "py_truthy (PFloat f) = (f \<noteq> Fin 0 \<and> f \<noteq> NegZero)"
| "py_truthy (PStr s) = (s \<noteq> [])"
| "py_truthy (PList xs) = (xs \<noteq> [])"
| "py_truthy (PDict d) = (d \<noteq> [])"

text \<open>\<^verbatim>\<open>d.get(k, default)\<close> on a dictionary, and on a value that may not be one.\<close>

definition dict_get :: "(string \<times> pyval) list \<Rightarrow> string \<Rightarrow> pyval \<Rightarrow> pyval" where
  "dict_get d k dflt = (case map_of d k of None \<Rightarrow> dflt | Some v \<Rightarrow> v)"

fun py_get :: "pyval \<Rightarrow> string \<Rightarrow> pyval \<Rightarrow> error + pyval" where
  "py_get (PDict d) k dflt = Inr (dict_get d k dflt)"
| "py_get _ k dflt = Inl AttributeError"

text \<open>\<^verbatim>\<open>v[k]\<close> with a string key.\<close>

fun py_item :: "pyval \<Rightarrow> string \<Rightarrow> error + pyval" where
  "py_item (PDict d) k = (case map_of d k of None \<Rightarrow> Inl (KeyError k) | Some v \<Rightarrow> Inr v)"
| "py_item _ k = Inl TypeError"

text \<open>\<^verbatim>\<open>needle in hay\<close> on two strings: \<open>needle\<close> occurs as a contiguous run.\<close>

fun starts_with :: "string \<Rightarrow> string \<Rightarrow> bool" where
  "starts_with [] s = True"
| "starts_with (p # ps) [] = False"
| "starts_with (p # ps) (c # cs) = (p = c \<and> starts_with ps cs)"

fun str_contains :: "string \<Rightarrow> string \<Rightarrow> bool" where
  "str_contains needle [] = (needle = [])"
| "str_contains needle (c # cs) = (starts_with needle (c # cs) \<or> str_contains needle cs)"

text \<open>Decimal rendering of integers, as \<^verbatim>\<open>str\<close> gives it.\<close>

definition digit_char :: "nat \<Rightarrow> char" where
  "digit_char n = ''0123456789'' ! (n mod 10)"

function show_nat :: "nat \<Rightarrow> string" where
  "show_nat n = (if n < 10 then [digit_char n] else show_nat (n div 10) @ [digit_char n])"
  by pat_completeness auto
termination
  by (relation "measure id") auto

declare show_nat.simps [simp del]

definition show_int :: "int \<Rightarrow> string" where
  "show_int i = (if i < 0 then CHR ''-'' # show_nat (nat (- i)) else show_nat (nat i))"

section \<open>What the source files take from the rest of the package\<close>

text \<open>
  \<^verbatim>\<open>ProxmoxTheme.RESOURCES\<close>, \<^verbatim>\<open>ProxmoxFormatters.format_bytes\<close> and
  \<^verbatim>\<open>format_uptime\<close> live in modules that are not part of the sources at hand, so they are
  parameters: the icon table is a function of the key, the two formatters may raise. The
  language built-ins that are not written out here are parameters as well:
  \<open>repr_other\<close> is \<^verbatim>\<open>str\<close> on floats, lists and dicts; \<open>round_double\<close> rounds a
  non-negative rational to the nearest double had the exponent no upper bound (the range
  is checked where it is used); \<open>str_upper\<close> is \<^verbatim>\<open>str.upper\<close>; and \<open>sort_other\<close> is what
  \<^verbatim>\<open>list.sort\<close> does with keys for which the order of its comparisons matters.
\<close>

record env =
  RESOURCES :: "string \<Rightarrow> string"
  format_bytes :: "pyval \<Rightarrow> error + string"
  format_uptime :: "pyval \<Rightarrow> error + string"
  repr_other :: "pyval \<Rightarrow> string"
  round_double :: "rat \<Rightarrow> rat"
  str_upper :: "string \<Rightarrow> string"
  sort_other :: "(string \<times> pyval) list list \<Rightarrow> error + (string \<times> pyval) list list"

text \<open>\<^verbatim>\<open>str(v)\<close>, which is also what a bare \<^verbatim>\<open>{v}\<close> in an f-string produces.\<close>

fun py_str :: "env \<Rightarrow> pyval \<Rightarrow> string" where
  "py_str env PNone = ''None''"
| "py_str env (PBool b) = (if b then ''True'' else ''False'')"
| "py_str env (PInt i) = show_int i"
| "py_str env (PStr s) = s"
| "py_str env v = repr_other env v"

text \<open>
  Modelled from the spec: the base class \<^verbatim>\<open>ProxmoxTool\<close> is not among the sources. Its
  \<^verbatim>\<open>_format_response\<close> wraps a normalised value and a resource-kind tag into the result
  type and is a parameter; its \<^verbatim>\<open>_handle_error\<close> turns an exception caught at the operation
  boundary into a single failure carrying the operation name and the cause.
\<close>

record 'c tool =
  format_response :: "pyval \<Rightarrow> string \<Rightarrow> error + 'c"

definition handle_error :: "string \<Rightarrow> error \<Rightarrow> failure + 'c" where
  "handle_error opname e = Inl (Failure opname e)"

text \<open>The API client: each chained accessor either returns a value or raises.\<close>

record client =
  nodes_get :: "error + pyval"
  zfs_get :: "pyval \<Rightarrow> error + pyval"
  zfs_pool_get :: "string \<Rightarrow> string \<Rightarrow> error + pyval"
  storage_get :: "string \<Rightarrow> error + pyval"
  content_get :: "string \<Rightarrow> pyval \<Rightarrow> error + pyval"
  status_get :: "string \<Rightarrow> pyval \<Rightarrow> error + pyval"

section \<open>\<^verbatim>\<open>ZFSTools.get_zfs_pool_status\<close>\<close>

text \<open>The health scan of the string branch (lines 155 to 161).\<close>

definition scan_health :: "string \<Rightarrow> string" where
  "scan_health pool_detail =
     (if str_contains ''ONLINE'' pool_detail then ''ONLINE''
      else if str_contains ''DEGRADED'' pool_detail then ''DEGRADED''
      else if str_contains ''FAULTED'' pool_detail then ''FAULTED''
      else ''UNKNOWN'')"

text \<open>The four-way dispatch on the shape of the response (lines 136 to 209).\<close>

fun pool_detail_result :: "env \<Rightarrow> string \<Rightarrow> string \<Rightarrow> pyval \<Rightarrow> (string \<times> pyval) list" where
  "pool_detail_result env node pool_name PNone =
     [(''name'', PStr pool_name),
      (''node'', PStr node),
      (''health'', PStr ''UNKNOWN''),
      (''state'', PStr ''API returned no data''),
      (''scan'', PDict []),
      (''action'', PNone),
      (''status'', PNone),
      (''errors'', PStr ''No data returned from API''),
      (''children'', PList [])]"
| "pool_detail_result env node pool_name (PStr s) =
     [(''name'', PStr pool_name),
      (''node'', PStr node),
      (''health'', PStr (scan_health s)),
      (''state'', PStr ''See raw output''),
      (''scan'', PDict []),
      (''action'', PNone),
      (''status'', PNone),
      (''errors'', PStr ''Check raw output''),
      (''children'', PList []),
      (''raw_status'', PStr s)]"
| "pool_detail_result env node pool_name (PDict d) =
     [(''name'', PStr pool_name),
      (''node'', PStr node),
      (''health'', dict_get d ''health'' (PStr ''UNKNOWN'')),
      (''state'', dict_get d ''state'' (PStr ''UNKNOWN'')),
      (''scan'', dict_get d ''scan'' (PDict [])),
      (''action'', dict_get d ''action'' PNone),
      (''status'', dict_get d ''status'' PNone),
      (''errors'', dict_get d ''errors'' (PStr ''No known data errors'')),
      (''children'', dict_get d ''children'' (PList []))]"
| "pool_detail_result env node pool_name v =
     [(''name'', PStr pool_name),
      (''node'', PStr node),
      (''health'', PStr ''UNKNOWN''),
      (''state'', PStr (''Unexpected type: '' @ type_name v)),
      (''scan'', PDict []),
      (''action'', PNone),
      (''status'', PNone),
      (''errors'', PStr (''API returned unexpected type: '' @ type_name v)),
      (''children'', PList []),
      (''raw_status'', PStr (py_str env v))]"

text \<open>The log lines written on the way (lines 129 to 133, the branch, line 211).\<close>

fun pool_detail_log :: "string \<Rightarrow> string \<Rightarrow> pyval \<Rightarrow> log_entry list" where
  "pool_detail_log node pool_name PNone =
     [(Warning, ''ZFS pool detail returned None for %s/%s'', [AVal (PStr node), AVal (PStr pool_name)])]"
| "pool_detail_log node pool_name (PStr s) =
     [(Debug, ''ZFS pool detail is string, parsing health...'', [])]"
| "pool_detail_log node pool_name (PDict d) =
     [(Debug, ''ZFS pool detail is dict, extracting fields...'', [])]"
| "pool_detail_log node pool_name v =
     [(Error, ''Unexpected ZFS pool detail type for %s/%s: %s - %r'',
       [AVal (PStr node), AVal (PStr pool_name), AVal (PStr (type_name v)), AVal v])]"

definition get_zfs_pool_status ::
  "'c tool \<Rightarrow> client \<Rightarrow> env \<Rightarrow> string \<Rightarrow> string \<Rightarrow> log_entry list \<times> (failure + 'c)" where
  "get_zfs_pool_status tb cl env node pool_name =
     (case zfs_pool_get cl node pool_name of
        Inl e \<Rightarrow> ([], handle_error (''get ZFS pool status for '' @ pool_name) e)
      | Inr pool_detail \<Rightarrow>
          (let result = pool_detail_result env node pool_name pool_detail;
               logged =
                 [(Debug, ''ZFS pool detail response - type: %s, value: %r'',
                   [AVal (PStr (type_name pool_detail)), AVal pool_detail])]
                 @ pool_detail_log node pool_name pool_detail
                 @ [(Debug, ''ZFS pool result: %r'', [AVal (PDict result)])]
           in (case format_response tb (PDict result) ''zfs_pool_detail'' of
                 Inl e \<Rightarrow> (logged, handle_error (''get ZFS pool status for '' @ pool_name) e)
               | Inr c \<Rightarrow> (logged, Inr c))))"

section \<open>Iteration, numbers and sorting\<close>

text \<open>
  \<^verbatim>\<open>for x in v\<close>: a list yields its elements, a dict its keys, a string its characters
  (one string per code point of the UTF-8 text); anything else is not iterable.
\<close>

definition is_cont :: "char \<Rightarrow> bool" where
  "is_cont c = (128 \<le> (of_char c :: nat) \<and> (of_char c :: nat) < 192)"

function utf8_chars :: "string \<Rightarrow> string list" where
  "utf8_chars [] = []"
| "utf8_chars (c # cs) = (c # takeWhile is_cont cs) # utf8_chars (dropWhile is_cont cs)"
  by pat_completeness auto
termination
  by (relation "measure length") (auto simp: length_dropWhile_le less_Suc_eq_le)

fun py_iter :: "pyval \<Rightarrow> error + pyval list" where
  "py_iter (PList xs) = Inr xs"
| "py_iter (PDict d) = Inr (map (\<lambda>(k, v). PStr k) d)"
| "py_iter (PStr s) = Inr (map PStr (utf8_chars s))"
| "py_iter _ = Inl TypeError"

text \<open>
  The integer value of an \<^verbatim>\<open>int\<close> or \<^verbatim>\<open>bool\<close>; the sign of a float.
\<close>

fun py_int :: "pyval \<Rightarrow> int option" where
  "py_int (PBool b) = Some (if b then 1 else 0)"
| "py_int (PInt i) = Some i"
| "py_int _ = None"

fun float_negative :: "pyfloat \<Rightarrow> bool" where
  "float_negative (Fin q) = (q < 0)"
| "float_negative NegZero = True"
| "float_negative NegInf = True"
| "float_negative _ = False"

text \<open>\<^verbatim>\<open>v > 0\<close>: false for both zeros and for NaN.\<close>

fun py_gt0 :: "pyval \<Rightarrow> error + bool" where
  "py_gt0 (PBool b) = Inr b"
| "py_gt0 (PInt i) = Inr (0 < i)"
| "py_gt0 (PFloat (Fin q)) = Inr (0 < q)"
| "py_gt0 (PFloat PosInf) = Inr True"
| "py_gt0 (PFloat _) = Inr False"
| "py_gt0 _ = Inl TypeError"

text \<open>
  The largest finite double, and the float that a non-negative magnitude \<open>m\<close> with sign
  \<open>neg\<close> rounds to: an infinity beyond the range, a zero of that sign when it rounds to
  zero.
\<close>

definition max_double :: rat where
  "max_double = (2 ^ 53 - 1) * 2 ^ 971"

definition mk_float :: "env \<Rightarrow> bool \<Rightarrow> rat \<Rightarrow> pyfloat" where
  "mk_float env neg m =
     (let r = round_double env m
      in if max_double < r then (if neg then NegInf else PosInf)
         else if r = 0 then (if neg then NegZero else Fin 0)
         else Fin (if neg then - r else r))"

text \<open>
  \<^verbatim>\<open>float(i)\<close>: exact up to \<open>2 ^ 53\<close>, rounded beyond, and an \<^verbatim>\<open>OverflowError\<close> when the
  integer is too large for a double.
\<close>

definition int_to_float :: "env \<Rightarrow> int \<Rightarrow> error + pyfloat" where
  "int_to_float env i =
     (if \<bar>i\<bar> \<le> 2 ^ 53 then Inr (Fin (of_int i))
      else (let r = round_double env (of_int \<bar>i\<bar>)
            in if max_double < r then Inl OverflowError
               else Inr (Fin (if i < 0 then - r else r))))"

fun as_float :: "env \<Rightarrow> pyval \<Rightarrow> error + pyfloat" where
  "as_float env (PFloat f) = Inr f"
| "as_float env (PInt i) = int_to_float env i"
| "as_float env (PBool b) = Inr (Fin (if b then 1 else 0))"
| "as_float env _ = Inl TypeError"

text \<open>
  \<^verbatim>\<open>a / b\<close> on two integers: a zero divisor raises, the exact quotient is rounded once,
  and a quotient too large for a double raises \<^verbatim>\<open>OverflowError\<close>.
\<close>

definition int_truediv :: "env \<Rightarrow> int \<Rightarrow> int \<Rightarrow> error + pyfloat" where
  "int_truediv env a b =
     (if b = 0 then Inl ZeroDivisionError
      else (let neg = ((a < 0) \<noteq> (b < 0));
                r = round_double env (of_int \<bar>a\<bar> / of_int \<bar>b\<bar>)
            in if max_double < r then Inl OverflowError
               else if r = 0 then Inr (if neg then NegZero else Fin 0)
               else Inr (Fin (if neg then - r else r))))"

text \<open>
  \<^verbatim>\<open>x / y\<close> on two floats: a zero divisor raises; NaN propagates, an infinity over an
  infinity is NaN, and a finite quotient beyond the range is an infinity.
\<close>

fun float_magnitude :: "pyfloat \<Rightarrow> rat" where
  "float_magnitude (Fin q) = \<bar>q\<bar>"
| "float_magnitude _ = 0"

definition float_div :: "env \<Rightarrow> pyfloat \<Rightarrow> pyfloat \<Rightarrow> error + pyfloat" where
  "float_div env x y =
     (let neg = (float_negative x \<noteq> float_negative y);
          x_inf = (x = PosInf \<or> x = NegInf);
          y_inf = (y = PosInf \<or> y = NegInf)
      in if y = Fin 0 \<or> y = NegZero then Inl ZeroDivisionError
         else if x = NaN \<or> y = NaN then Inr NaN
         else if x_inf \<and> y_inf then Inr NaN
         else if x_inf then Inr (if neg then NegInf else PosInf)
         else if y_inf then Inr (if neg then NegZero else Fin 0)
         else Inr (mk_float env neg (float_magnitude x / float_magnitude y)))"

text \<open>
  \<^verbatim>\<open>a / b\<close>: operands that are not numbers raise \<^verbatim>\<open>TypeError\<close>; two integers divide as
  integers; otherwise both operands are converted to floats first.
\<close>

definition py_truediv :: "env \<Rightarrow> pyval \<Rightarrow> pyval \<Rightarrow> error + pyfloat" where
  "py_truediv env a b =
     (case (py_int a, py_int b) of
        (Some i, Some j) \<Rightarrow> int_truediv env i j
      | _ \<Rightarrow>
          if as_float env a = Inl TypeError \<or> as_float env b = Inl TypeError then Inl TypeError
          else bindE (as_float env a) (\<lambda>x. bindE (as_float env b) (\<lambda>y. float_div env x y)))"

text \<open>\<^verbatim>\<open>x * 100\<close> on a float \<open>x\<close>.\<close>

fun times100 :: "env \<Rightarrow> pyfloat \<Rightarrow> pyfloat" where
  "times100 env (Fin q) = mk_float env (q < 0) (\<bar>q\<bar> * 100)"
| "times100 env f = f"

text \<open>
  The expression \<^verbatim>\<open>(part / whole * 100) if whole > 0 else 0\<close>, which the renderers
  repeat for memory, disk, storage and pool usage (templates.py lines 33, 51, 73, 89, 113,
  142, 174, 241 and 407).
\<close>

definition percent_of :: "env \<Rightarrow> pyval \<Rightarrow> pyval \<Rightarrow> error + pyval" where
  "percent_of env part whole =
     bindE (py_gt0 whole) (\<lambda>positive.
       if positive
       then bindE (py_truediv env part whole) (\<lambda>q. Inr (PFloat (times100 env q)))
       else Inr (PInt 0))"

text \<open>
  Fixed-point formatting \<^verbatim>\<open>{v:.1f}\<close> and \<^verbatim>\<open>{v:.2f}\<close>: the exact value rounded to
  \<open>d\<close> decimals, ties to even; infinities and NaN by name; an integer is converted to a
  float first, which may raise.
\<close>

definition round_half_even :: "rat \<Rightarrow> int" where
  "round_half_even q =
     (let f = \<lfloor>q\<rfloor>; r = q - of_int f
      in if r < 1 / 2 then f else if 1 / 2 < r then f + 1 else if even f then f else f + 1)"

definition zero_pad :: "nat \<Rightarrow> string \<Rightarrow> string" where
  "zero_pad d s = replicate (d - length s) CHR ''0'' @ s"

definition fixed :: "nat \<Rightarrow> rat \<Rightarrow> string" where
  "fixed d q =
     (let n = nat (round_half_even (\<bar>q\<bar> * 10 ^ d))
      in (if q < 0 then ''-'' else []) @ show_nat (n div 10 ^ d) @ ''.''
         @ zero_pad d (show_nat (n mod 10 ^ d)))"

fun float_fixed :: "nat \<Rightarrow> pyfloat \<Rightarrow> string" where
  "float_fixed d (Fin q) = fixed d q"
| "float_fixed d NegZero = CHR ''-'' # fixed d 0"
| "float_fixed d PosInf = ''inf''"
| "float_fixed d NegInf = ''-inf''"
| "float_fixed d NaN = ''nan''"

fun fmt_fixed :: "env \<Rightarrow> nat \<Rightarrow> pyval \<Rightarrow> error + string" where
  "fmt_fixed env d (PFloat f) = Inr (float_fixed d f)"
| "fmt_fixed env d (PInt i) = bindE (int_to_float env i) (\<lambda>f. Inr (float_fixed d f))"
| "fmt_fixed env d (PBool b) = Inr (fixed d (if b then 1 else 0))"
| "fmt_fixed env d (PStr s) = Inl ValueError"
| "fmt_fixed env d _ = Inl TypeError"

text \<open>
  \<^verbatim>\<open>volumes.sort(key=lambda x: x["size"], reverse=True)\<close>: a stable sort, descending.
  Fewer than two elements are never compared. Numbers without NaN compare by value and
  strings by code point, and then the result does not depend on the order in which the
  sort compares; for every other list of keys (a NaN, lists, a mixture, values without an
  order) that order decides between a result and a \<^verbatim>\<open>TypeError\<close>, and the outcome is the
  parameter \<open>sort_other\<close>. Sorting in place only rearranges the list, so a result of the
  parameter that is no rearrangement of the input is never used.
\<close>

fun num_key :: "pyval \<Rightarrow> (int \<times> rat) option" where
  "num_key (PBool b) = Some (0, if b then 1 else 0)"
| "num_key (PInt i) = Some (0, of_int i)"
| "num_key (PFloat (Fin q)) = Some (0, q)"
| "num_key (PFloat NegZero) = Some (0, 0)"
| "num_key (PFloat PosInf) = Some (1, 0)"
| "num_key (PFloat NegInf) = Some (- 1, 0)"
| "num_key _ = None"

fun py_strkey :: "pyval \<Rightarrow> nat list option" where
  "py_strkey (PStr s) = Some (map of_char s)"
| "py_strkey _ = None"

definition sort_desc :: "('a \<Rightarrow> 'k::linorder) \<Rightarrow> 'a list \<Rightarrow> 'a list" where
  "sort_desc key xs = rev (sort_key key (rev xs))"

definition sort_by_size ::
  "env \<Rightarrow> (string \<times> pyval) list list \<Rightarrow> error + (string \<times> pyval) list list" where
  "sort_by_size env volumes =
     (let size_of = (\<lambda>x. dict_get x ''size'' PNone)
      in if length volumes < 2 then Inr volumes
         else if list_all (\<lambda>x. num_key (size_of x) \<noteq> None) volumes
         then Inr (sort_desc (\<lambda>x. the (num_key (size_of x))) volumes)
         else if list_all (\<lambda>x. py_strkey (size_of x) \<noteq> None) volumes
         then Inr (sort_desc (\<lambda>x. the (py_strkey (size_of x))) volumes)
         else (case sort_other env volumes of
                 Inl e \<Rightarrow> Inl e
               | Inr sorted_volumes \<Rightarrow>
                   if mset sorted_volumes = mset volumes then Inr sorted_volumes
                   else Inl TypeError))"

section \<open>\<^verbatim>\<open>ZFSTools.list_zfs_pools\<close>\<close>

text \<open>The record built for one pool (lines 80 to 89); \<^verbatim>\<open>pool.get\<close> needs a dict.\<close>

fun pool_data :: "pyval \<Rightarrow> pyval \<Rightarrow> error + pyval" where
  "pool_data node_name (PDict pool) =
     Inr (PDict
       [(''name'', dict_get pool ''name'' (PStr ''unknown'')),
        (''node'', node_name),
        (''health'', dict_get pool ''health'' (PStr ''UNKNOWN'')),
        (''size'', dict_get pool ''size'' (PInt 0)),
        (''alloc'', dict_get pool ''alloc'' (PInt 0)),
        (''free'', dict_get pool ''free'' (PInt 0)),
        (''frag'', dict_get pool ''frag'' (PInt 0)),
        (''dedup'', dict_get pool ''dedup'' (PFloat (Fin 1)))])"
| "pool_data node_name _ = Inl AttributeError"

text \<open>
  The inner loop (lines 79 to 90) appends to \<open>pools\<close> as it goes, so what was appended
  before an exception stays; the result is the list and the exception, if any.
\<close>

fun collect_pools :: "pyval \<Rightarrow> pyval list \<Rightarrow> pyval list \<Rightarrow> pyval list \<times> error option" where
  "collect_pools node_name [] pools = (pools, None)"
| "collect_pools node_name (pool # rest) pools =
     (case pool_data node_name pool of
        Inl e \<Rightarrow> (pools, Some e)
      | Inr pd \<Rightarrow> collect_pools node_name rest (pools @ [pd]))"

definition node_warning :: "pyval \<Rightarrow> error \<Rightarrow> log_entry" where
  "node_warning node_name node_error =
     (Warning, ''Could not query ZFS pools on node %s: %s'', [AVal node_name, AErr node_error])"

text \<open>
  The loop over the nodes (lines 73 to 98). \<^verbatim>\<open>node_info["node"]\<close> is outside the inner
  \<^verbatim>\<open>try\<close>, so its exception ends the sweep; everything after it is inside.
\<close>

fun sweep_nodes ::
  "client \<Rightarrow> pyval list \<Rightarrow> pyval list \<Rightarrow> log_entry list \<Rightarrow> log_entry list \<times> (error + pyval list)" where
  "sweep_nodes cl [] pools logged = (logged, Inr pools)"
| "sweep_nodes cl (node_info # rest) pools logged =
     (case py_item node_info ''node'' of
        Inl e \<Rightarrow> (logged, Inl e)
      | Inr node_name \<Rightarrow>
          (case bindE (zfs_get cl node_name) py_iter of
             Inl node_error \<Rightarrow>
               sweep_nodes cl rest pools (logged @ [node_warning node_name node_error])
           | Inr zfs_pools \<Rightarrow>
               (case collect_pools node_name zfs_pools pools of
                  (pools', None) \<Rightarrow> sweep_nodes cl rest pools' logged
                | (pools', Some node_error) \<Rightarrow>
                    sweep_nodes cl rest pools' (logged @ [node_warning node_name node_error]))))"

text \<open>
  The argument \<open>node\<close> is an optional string; \<^verbatim>\<open>if node:\<close> is false for \<^verbatim>\<open>None\<close> and for
  the empty string (lines 68 to 71).
\<close>

definition nodes_to_query :: "client \<Rightarrow> string option \<Rightarrow> error + pyval" where
  "nodes_to_query cl node =
     (case node of
        Some n \<Rightarrow> if n \<noteq> [] then Inr (PList [PDict [(''node'', PStr n)]]) else nodes_get cl
      | None \<Rightarrow> nodes_get cl)"

definition list_zfs_pools ::
  "'c tool \<Rightarrow> client \<Rightarrow> string option \<Rightarrow> log_entry list \<times> (failure + 'c)" where
  "list_zfs_pools tb cl node =
     (case bindE (nodes_to_query cl node) py_iter of
        Inl e \<Rightarrow> ([], handle_error ''list ZFS pools'' e)
      | Inr infos \<Rightarrow>
          (case sweep_nodes cl infos [] [] of
             (logged, Inl e) \<Rightarrow> (logged, handle_error ''list ZFS pools'' e)
           | (logged, Inr pools) \<Rightarrow>
               (case format_response tb (PList pools) ''zfs_pools'' of
                  Inl e \<Rightarrow> (logged, handle_error ''list ZFS pools'' e)
                | Inr c \<Rightarrow> (logged, Inr c))))"

section \<open>\<^verbatim>\<open>ZFSTools.get_storage_usage\<close>\<close>

text \<open>The status sub-query with its own \<^verbatim>\<open>try\<close> (lines 343 to 349).\<close>

definition status_totals :: "client \<Rightarrow> string \<Rightarrow> pyval \<Rightarrow> pyval \<times> pyval \<times> pyval" where
  "status_totals cl node store_name =
     (case bindE (status_get cl node store_name) (\<lambda>status.
             bindE (py_get status ''total'' (PInt 0)) (\<lambda>tot.
             bindE (py_get status ''used'' (PInt 0)) (\<lambda>used.
             bindE (py_get status ''avail'' (PInt 0)) (\<lambda>avail.
             Inr (tot, used, avail))))) of
        Inl e \<Rightarrow> (PInt 0, PInt 0, PInt 0)
      | Inr t \<Rightarrow> t)"

text \<open>One entry of the volume list (lines 354 to 361).\<close>

fun volume_entry :: "pyval \<Rightarrow> error + (string \<times> pyval) list" where
  "volume_entry (PDict item) =
     Inr [(''volid'', dict_get item ''volid'' (PStr ''unknown'')),
          (''format'', dict_get item ''format'' (PStr ''unknown'')),
          (''size'', dict_get item ''size'' (PInt 0)),
          (''vmid'', dict_get item ''vmid'' PNone),
          (''content'', dict_get item ''content'' (PStr ''unknown'')),
          (''ctime'', dict_get item ''ctime'' PNone)]"
| "volume_entry _ = Inl AttributeError"

fun volume_entries :: "pyval list \<Rightarrow> error + (string \<times> pyval) list list" where
  "volume_entries [] = Inr []"
| "volume_entries (item # rest) =
     bindE (volume_entry item) (\<lambda>v. bindE (volume_entries rest) (\<lambda>vs. Inr (v # vs)))"

text \<open>The body of the inner \<^verbatim>\<open>try\<close> for one storage (lines 340 to 374).\<close>

definition usage_record :: "client \<Rightarrow> env \<Rightarrow> string \<Rightarrow> pyval \<Rightarrow> pyval \<Rightarrow> error + pyval" where
  "usage_record cl env node store store_name =
     bindE (content_get cl node store_name) (\<lambda>content.
     (case status_totals cl node store_name of (tot, used, avail) \<Rightarrow>
        bindE (py_iter content) (\<lambda>items.
        bindE (volume_entries items) (\<lambda>unsorted.
        bindE (sort_by_size env unsorted) (\<lambda>volumes.
        bindE (py_get store ''type'' (PStr ''unknown'')) (\<lambda>store_type.
        Inr (PDict
          [(''storage'', store_name),
           (''type'', store_type),
           (''total'', tot),
           (''used'', used),
           (''available'', avail),
           (''volumes'', PList (map PDict volumes)),
           (''volume_count'', PInt (int (length volumes)))])))))))"

text \<open>
  Line 376 builds its message with an f-string; the log entry keeps the two interpolated
  values as its arguments.
\<close>

definition content_warning :: "pyval \<Rightarrow> error \<Rightarrow> log_entry" where
  "content_warning store_name e =
     (Warning, ''Could not get content for {store_name}: {e}'', [AVal store_name, AErr e])"

text \<open>
  The loop over the storages (lines 332 to 377); \<open>storage\<close> is the optional filter, and
  \<^verbatim>\<open>store["storage"]\<close> is outside the inner \<^verbatim>\<open>try\<close>.
\<close>

fun usage_loop ::
  "client \<Rightarrow> env \<Rightarrow> string \<Rightarrow> string option \<Rightarrow> pyval list \<Rightarrow> pyval list \<Rightarrow> log_entry list
     \<Rightarrow> log_entry list \<times> (error + pyval list)" where
  "usage_loop cl env node storage [] usage_data logged = (logged, Inr usage_data)"
| "usage_loop cl env node storage (store # rest) usage_data logged =
     (case (if storage \<noteq> None \<and> storage \<noteq> Some []
            then bindE (py_item store ''storage'') (\<lambda>s. Inr (s \<noteq> PStr (the storage)))
            else Inr False) of
        Inl e \<Rightarrow> (logged, Inl e)
      | Inr True \<Rightarrow> usage_loop cl env node storage rest usage_data logged
      | Inr False \<Rightarrow>
          (case py_item store ''storage'' of
             Inl e \<Rightarrow> (logged, Inl e)
           | Inr store_name \<Rightarrow>
               (case usage_record cl env node store store_name of
                  Inl e \<Rightarrow>
                    usage_loop cl env node storage rest usage_data
                      (logged @ [content_warning store_name e])
                | Inr r \<Rightarrow> usage_loop cl env node storage rest (usage_data @ [r]) logged)))"

definition get_storage_usage ::
  "'c tool \<Rightarrow> client \<Rightarrow> env \<Rightarrow> string \<Rightarrow> string option \<Rightarrow> log_entry list \<times> (failure + 'c)" where
  "get_storage_usage tb cl env node storage =
     (case bindE (storage_get cl node) py_iter of
        Inl e \<Rightarrow> ([], handle_error ''get storage usage'' e)
      | Inr storages \<Rightarrow>
          (case usage_loop cl env node storage storages [] [] of
             (logged, Inl e) \<Rightarrow> (logged, handle_error ''get storage usage'' e)
           | (logged, Inr usage_data) \<Rightarrow>
               (case format_response tb (PList usage_data) ''storage_usage'' of
                  Inl e \<Rightarrow> (logged, handle_error ''get storage usage'' e)
                | Inr c \<Rightarrow> (logged, Inr c))))"

section \<open>\<^verbatim>\<open>ProxmoxTemplates\<close>: shared pieces\<close>

definition newline :: char where
  "newline = CHR 0x0A"

text \<open>\<^verbatim>\<open>"\n".join(result)\<close>\<close>

fun join_lines :: "string list \<Rightarrow> string" where
  "join_lines [] = []"
| "join_lines [l] = l"
| "join_lines (l # m # ls) = l @ newline # join_lines (m # ls)"

text \<open>\<^verbatim>\<open>s.split(sep)\<close> for a one-character separator.\<close>

fun split_on :: "char \<Rightarrow> string \<Rightarrow> string list" where
  "split_on sep [] = [[]]"
| "split_on sep (c # cs) =
     (if c = sep then [] # split_on sep cs
      else (case split_on sep cs of [] \<Rightarrow> [[c]] | w # ws \<Rightarrow> (c # w) # ws))"

text \<open>
  \<^verbatim>\<open>line.strip()\<close> is empty exactly when every character of the line is white space:
  the ASCII controls 9 to 13 and 28 to 32, and the UTF-8 sequences of U+0085, U+00A0,
  U+1680, U+2000 to U+200A, U+2028, U+2029, U+202F, U+205F and U+3000.
\<close>

fun blank_codes :: "nat list \<Rightarrow> bool" where
  "blank_codes [] = True"
| "blank_codes [a] = ((9 \<le> a \<and> a \<le> 13) \<or> (28 \<le> a \<and> a \<le> 32))"
| "blank_codes [a, b] =
     (if (9 \<le> a \<and> a \<le> 13) \<or> (28 \<le> a \<and> a \<le> 32) then blank_codes [b]
      else a = 194 \<and> (b = 133 \<or> b = 160))"
| "blank_codes (a # b # c # rest) =
     (if (9 \<le> a \<and> a \<le> 13) \<or> (28 \<le> a \<and> a \<le> 32) then blank_codes (b # c # rest)
      else if a = 194 \<and> (b = 133 \<or> b = 160) then blank_codes (c # rest)
      else if (a = 225 \<and> b = 154 \<and> c = 128)
            \<or> (a = 226 \<and> b = 128 \<and> ((128 \<le> c \<and> c \<le> 138) \<or> c = 168 \<or> c = 169 \<or> c = 175))
            \<or> (a = 226 \<and> b = 129 \<and> c = 159)
            \<or> (a = 227 \<and> b = 128 \<and> c = 128)
           then blank_codes rest
      else False)"

definition blank :: "string \<Rightarrow> bool" where
  "blank line = blank_codes (map of_char line)"

text \<open>The three icon tables (lines 232, 269, 295, 302; line 363; line 366).\<close>

definition green_icon :: string where
  "green_icon = [CHR 0xF0, CHR 0x9F, CHR 0x9F, CHR 0xA2]"

definition yellow_icon :: string where
  "yellow_icon = [CHR 0xF0, CHR 0x9F, CHR 0x9F, CHR 0xA1]"

definition red_icon :: string where
  "red_icon = [CHR 0xF0, CHR 0x9F, CHR 0x94, CHR 0xB4]"

definition ssd_icon :: string where
  "ssd_icon = [CHR 0xE2, CHR 0x9A, CHR 0xA1]"

definition hdd_icon :: string where
  "hdd_icon = [CHR 0xF0, CHR 0x9F, CHR 0x92, CHR 0xBF]"

definition health_icon :: "pyval \<Rightarrow> string" where
  "health_icon health =
     (if health = PStr ''ONLINE'' then green_icon
      else if health = PStr ''DEGRADED'' then yellow_icon else red_icon)"

definition disk_health_icon :: "pyval \<Rightarrow> string" where
  "disk_health_icon health =
     (if health = PStr ''PASSED'' \<or> health = PStr ''OK'' then green_icon
      else if health = PStr ''UNKNOWN'' then yellow_icon else red_icon)"

definition type_icon :: "pyval \<Rightarrow> string" where
  "type_icon disk_type = (if disk_type = PStr ''ssd'' then ssd_icon else hdd_icon)"

text \<open>\<^verbatim>\<open>v.upper()\<close>: only a string has the method.\<close>

fun py_upper :: "env \<Rightarrow> pyval \<Rightarrow> error + string" where
  "py_upper env (PStr s) = Inr (str_upper env s)"
| "py_upper env _ = Inl AttributeError"

text \<open>A loop that extends \<open>result\<close> by one block per item; an exception ends it.\<close>

fun blocks :: "('a \<Rightarrow> error + string list) \<Rightarrow> 'a list \<Rightarrow> error + string list" where
  "blocks f [] = Inr []"
| "blocks f (x # xs) =
     (case f x of
        Inl e \<Rightarrow> Inl e
      | Inr ls \<Rightarrow> (case blocks f xs of Inl e \<Rightarrow> Inl e | Inr rest \<Rightarrow> Inr (ls @ rest)))"

text \<open>
  The line \<^verbatim>\<open>{format_bytes(used)} / {format_bytes(total)} ({percent:.1f}%)\<close> behind a
  label, as the node, VM, container and storage renderers write it.
\<close>

definition usage_line :: "env \<Rightarrow> string \<Rightarrow> pyval \<Rightarrow> pyval \<Rightarrow> pyval \<Rightarrow> error + string" where
  "usage_line env label used tot percent =
     bindE (format_bytes env used) (\<lambda>u.
     bindE (format_bytes env tot) (\<lambda>t.
     bindE (fmt_fixed env 1 percent) (\<lambda>p.
     Inr (label @ u @ '' / '' @ t @ '' ('' @ p @ ''%)''))))"

section \<open>\<^verbatim>\<open>node_list\<close>, \<^verbatim>\<open>vm_list\<close>, \<^verbatim>\<open>storage_list\<close>, \<^verbatim>\<open>container_list\<close>\<close>

fun node_block :: "env \<Rightarrow> pyval \<Rightarrow> error + string list" where
  "node_block env (PDict node) =
     (let status = dict_get node ''status'' (PStr ''unknown'');
          memory = dict_get node ''memory'' (PDict [])
      in bindE (py_get memory ''used'' (PInt 0)) (\<lambda>memory_used.
         bindE (py_get memory ''total'' (PInt 0)) (\<lambda>memory_total.
         bindE (percent_of env memory_used memory_total) (\<lambda>memory_percent.
         bindE (py_item (PDict node) ''node'') (\<lambda>name.
         bindE (py_upper env status) (\<lambda>status_upper.
         bindE (format_uptime env (dict_get node ''uptime'' (PInt 0))) (\<lambda>uptime.
         bindE (usage_line env ''  - Memory: '' memory_used memory_total memory_percent)
           (\<lambda>memory_line.
         (let result =
                [[],
                 RESOURCES env ''node'' @ '' '' @ py_str env name,
                 ''  - Status: '' @ status_upper,
                 ''  - Uptime: '' @ uptime,
                 ''  - CPU Cores: '' @ py_str env (dict_get node ''maxcpu'' (PStr ''N/A'')),
                 memory_line];
              disk = dict_get node ''disk'' (PDict [])
          in if py_truthy disk
             then bindE (py_get disk ''used'' (PInt 0)) (\<lambda>disk_used.
                  bindE (py_get disk ''total'' (PInt 0)) (\<lambda>disk_total.
                  bindE (percent_of env disk_used disk_total) (\<lambda>disk_percent.
                  bindE (usage_line env ''  - Disk: '' disk_used disk_total disk_percent)
                    (\<lambda>disk_line. Inr (result @ [disk_line])))))
             else Inr result)))))))))"
| "node_block env _ = Inl AttributeError"

definition node_list :: "env \<Rightarrow> pyval list \<Rightarrow> error + string" where
  "node_list env nodes =
     bindE (blocks (node_block env) nodes) (\<lambda>body.
     Inr (join_lines ((RESOURCES env ''node'' @ '' Proxmox Nodes'') # body)))"

text \<open>\<^verbatim>\<open>node_status(node, status)\<close> (lines 70 to 95), for a node name and a dict.\<close>

definition node_status :: "env \<Rightarrow> string \<Rightarrow> (string \<times> pyval) list \<Rightarrow> error + string" where
  "node_status env node status =
     (let memory = dict_get status ''memory'' (PDict [])
      in bindE (py_get memory ''used'' (PInt 0)) (\<lambda>memory_used.
         bindE (py_get memory ''total'' (PInt 0)) (\<lambda>memory_total.
         bindE (percent_of env memory_used memory_total) (\<lambda>memory_percent.
         bindE (py_upper env (dict_get status ''status'' (PStr ''unknown''))) (\<lambda>status_upper.
         bindE (format_uptime env (dict_get status ''uptime'' (PInt 0))) (\<lambda>uptime.
         bindE (usage_line env ''  - Memory: '' memory_used memory_total memory_percent)
           (\<lambda>memory_line.
         (let result =
                [RESOURCES env ''node'' @ '' Node: '' @ node,
                 ''  - Status: '' @ status_upper,
                 ''  - Uptime: '' @ uptime,
                 ''  - CPU Cores: '' @ py_str env (dict_get status ''maxcpu'' (PStr ''N/A'')),
                 memory_line];
              disk = dict_get status ''disk'' (PDict [])
          in if py_truthy disk
             then bindE (py_get disk ''used'' (PInt 0)) (\<lambda>disk_used.
                  bindE (py_get disk ''total'' (PInt 0)) (\<lambda>disk_total.
                  bindE (percent_of env disk_used disk_total) (\<lambda>disk_percent.
                  bindE (usage_line env ''  - Disk: '' disk_used disk_total disk_percent)
                    (\<lambda>disk_line. Inr (join_lines (result @ [disk_line]))))))
             else Inr (join_lines result)))))))))"

text \<open>
  The per-item block of \<^verbatim>\<open>vm_list\<close> (lines 110 to 123) and of \<^verbatim>\<open>container_list\<close>
  (lines 171 to 184), which differ in the icon key only.
\<close>

fun instance_block :: "env \<Rightarrow> string \<Rightarrow> pyval \<Rightarrow> error + string list" where
  "instance_block env kind (PDict vm) =
     (let memory = dict_get vm ''memory'' (PDict [])
      in bindE (py_get memory ''used'' (PInt 0)) (\<lambda>memory_used.
         bindE (py_get memory ''total'' (PInt 0)) (\<lambda>memory_total.
         bindE (percent_of env memory_used memory_total) (\<lambda>memory_percent.
         bindE (py_item (PDict vm) ''name'') (\<lambda>name.
         bindE (py_item (PDict vm) ''vmid'') (\<lambda>vmid.
         bindE (py_item (PDict vm) ''status'') (\<lambda>status.
         bindE (py_upper env status) (\<lambda>status_upper.
         bindE (py_item (PDict vm) ''node'') (\<lambda>node.
         bindE (usage_line env ''  - Memory: '' memory_used memory_total memory_percent)
           (\<lambda>memory_line.
         Inr [[],
              RESOURCES env kind @ '' '' @ py_str env name @ '' (ID: '' @ py_str env vmid @ '')'',
              ''  - Status: '' @ status_upper,
              ''  - Node: '' @ py_str env node,
              ''  - CPU Cores: '' @ py_str env (dict_get vm ''cpus'' (PStr ''N/A'')),
              memory_line]))))))))))"
| "instance_block env kind _ = Inl AttributeError"

definition vm_list :: "env \<Rightarrow> pyval list \<Rightarrow> error + string" where
  "vm_list env vms =
     bindE (blocks (instance_block env ''vm'') vms) (\<lambda>body.
     Inr (join_lines ((RESOURCES env ''vm'' @ '' Virtual Machines'') # body)))"

fun storage_block :: "env \<Rightarrow> pyval \<Rightarrow> error + string list" where
  "storage_block env (PDict store) =
     (let used = dict_get store ''used'' (PInt 0);
          tot = dict_get store ''total'' (PInt 0)
      in bindE (percent_of env used tot) (\<lambda>percent.
         bindE (py_item (PDict store) ''storage'') (\<lambda>name.
         bindE (py_upper env (dict_get store ''status'' (PStr ''unknown''))) (\<lambda>status_upper.
         bindE (py_item (PDict store) ''type'') (\<lambda>store_type.
         bindE (usage_line env ''  - Usage: '' used tot percent) (\<lambda>usage.
         Inr [[],
              RESOURCES env ''storage'' @ '' '' @ py_str env name,
              ''  - Status: '' @ status_upper,
              ''  - Type: '' @ py_str env store_type,
              usage]))))))"
| "storage_block env _ = Inl AttributeError"

definition storage_list :: "env \<Rightarrow> pyval list \<Rightarrow> error + string" where
  "storage_list env storage =
     bindE (blocks (storage_block env) storage) (\<lambda>body.
     Inr (join_lines ((RESOURCES env ''storage'' @ '' Storage Pools'') # body)))"

definition container_list :: "env \<Rightarrow> pyval list \<Rightarrow> error + string" where
  "container_list env containers =
     (if containers = [] then Inr (RESOURCES env ''container'' @ '' No containers found'')
      else bindE (blocks (instance_block env ''container'') containers) (\<lambda>body.
           Inr (join_lines ((RESOURCES env ''container'' @ '' Containers'') # body))))"

section \<open>\<^verbatim>\<open>zfs_pool_list\<close>\<close>

text \<open>
  \<^verbatim>\<open>dedup != 1.0\<close>: numbers compare by value, and no other value equals \<^verbatim>\<open>1.0\<close>.
\<close>

fun differs_from_one :: "pyval \<Rightarrow> bool" where
  "differs_from_one (PBool b) = (\<not> b)"
| "differs_from_one (PInt i) = (i \<noteq> 1)"
| "differs_from_one (PFloat f) = (f \<noteq> Fin 1)"
| "differs_from_one _ = True"

text \<open>The optional last line of a pool block (lines 253 and 254).\<close>

definition dedup_lines :: "env \<Rightarrow> pyval \<Rightarrow> error + string list" where
  "dedup_lines env dedup =
     (if py_truthy dedup \<and> differs_from_one dedup
      then bindE (fmt_fixed env 2 dedup) (\<lambda>r. Inr [''  - Dedup Ratio: '' @ r @ ''x''])
      else Inr [])"

fun zfs_pool_block :: "env \<Rightarrow> pyval \<Rightarrow> error + string list" where
  "zfs_pool_block env (PDict pool) =
     (let health = dict_get pool ''health'' (PStr ''UNKNOWN'');
          size = dict_get pool ''size'' (PInt 0);
          alloc = dict_get pool ''alloc'' (PInt 0);
          free = dict_get pool ''free'' (PInt 0);
          frag = dict_get pool ''frag'' (PInt 0);
          dedup = dict_get pool ''dedup'' (PFloat (Fin 1))
      in bindE (percent_of env alloc size) (\<lambda>percent.
         bindE (py_item (PDict pool) ''name'') (\<lambda>name.
         bindE (format_bytes env size) (\<lambda>size_text.
         bindE (format_bytes env alloc) (\<lambda>alloc_text.
         bindE (fmt_fixed env 1 percent) (\<lambda>percent_text.
         bindE (format_bytes env free) (\<lambda>free_text.
         bindE (dedup_lines env dedup) (\<lambda>dedup_part.
         Inr ([[],
               RESOURCES env ''zfs'' @ '' '' @ py_str env name @ '' (''
                 @ py_str env (dict_get pool ''node'' (PStr ''unknown'')) @ '')'',
               ''  - Health: '' @ health_icon health @ '' '' @ py_str env health,
               ''  - Size: '' @ size_text,
               ''  - Used: '' @ alloc_text @ '' ('' @ percent_text @ ''%)'',
               ''  - Free: '' @ free_text,
               ''  - Fragmentation: '' @ py_str env frag @ ''%'']
              @ dedup_part)))))))))"
| "zfs_pool_block env _ = Inl AttributeError"

definition zfs_pool_list :: "env \<Rightarrow> pyval list \<Rightarrow> error + string" where
  "zfs_pool_list env pools =
     (if pools = [] then Inr (RESOURCES env ''zfs'' @ '' No ZFS pools found'')
      else bindE (blocks (zfs_pool_block env) pools) (\<lambda>body.
           Inr (join_lines ((RESOURCES env ''zfs'' @ '' ZFS Storage Pools'') # body))))"

section \<open>\<^verbatim>\<open>zfs_pool_detail\<close>\<close>

text \<open>Lines 268 to 276.\<close>

definition detail_header :: "env \<Rightarrow> (string \<times> pyval) list \<Rightarrow> string list" where
  "detail_header env pool =
     (let health = dict_get pool ''health'' (PStr ''UNKNOWN'')
      in [RESOURCES env ''zfs'' @ '' ZFS Pool: '' @ py_str env (dict_get pool ''name'' (PStr ''unknown'')),
          ''  - Node: '' @ py_str env (dict_get pool ''node'' (PStr ''unknown'')),
          ''  - Health: '' @ health_icon health @ '' '' @ py_str env health,
          ''  - State: '' @ py_str env (dict_get pool ''state'' (PStr ''UNKNOWN''))])"

text \<open>Lines 279 to 281.\<close>

definition scan_lines :: "env \<Rightarrow> pyval \<Rightarrow> error + string list" where
  "scan_lines env scan =
     (if py_truthy scan
      then bindE (py_get scan ''function'' (PStr ''none'')) (\<lambda>func.
           bindE (py_get scan ''state'' (PStr ''unknown'')) (\<lambda>state.
           Inr [''  - Last Scan: '' @ py_str env func @ '' - '' @ py_str env state]))
      else Inr [])"

text \<open>Lines 299 to 303, and lines 292 to 303.\<close>

fun subchild_line :: "env \<Rightarrow> pyval \<Rightarrow> error + string list" where
  "subchild_line env (PDict subchild) =
     (let sub_name = dict_get subchild ''name'' (PStr ''unknown'');
          sub_state = dict_get subchild ''state'' (PStr ''UNKNOWN'')
      in Inr [''      - '' @ py_str env sub_name @ '': '' @ health_icon sub_state @ '' ''
              @ py_str env sub_state])"
| "subchild_line env _ = Inl AttributeError"

fun child_lines :: "env \<Rightarrow> pyval \<Rightarrow> error + string list" where
  "child_lines env (PDict child) =
     (let child_name = dict_get child ''name'' (PStr ''unknown'');
          child_state = dict_get child ''state'' (PStr ''UNKNOWN'')
      in bindE (py_iter (dict_get child ''children'' (PList []))) (\<lambda>subchildren.
         bindE (blocks (subchild_line env) subchildren) (\<lambda>sub.
         Inr ((''    - '' @ py_str env child_name @ '': '' @ health_icon child_state @ '' ''
               @ py_str env child_state) # sub))))"
| "child_lines env _ = Inl AttributeError"

text \<open>Lines 288 to 303.\<close>

definition layout_lines :: "env \<Rightarrow> pyval \<Rightarrow> error + string list" where
  "layout_lines env children =
     (if py_truthy children
      then bindE (py_iter children) (\<lambda>cs.
           bindE (blocks (child_lines env) cs) (\<lambda>ls.
           Inr ([[], ''  Disk Layout:''] @ ls)))
      else Inr [])"

text \<open>
  Lines 306 to 312: the raw status section. \<^verbatim>\<open>raw_status.split\<close> exists on strings
  only.
\<close>

definition raw_lines :: "string \<Rightarrow> string list" where
  "raw_lines raw_status =
     map (\<lambda>line. ''    '' @ line) (filter (\<lambda>line. \<not> blank line) (split_on newline raw_status))"

definition raw_section :: "pyval \<Rightarrow> error + string list" where
  "raw_section raw_status =
     (if py_truthy raw_status
      then (case raw_status of
              PStr s \<Rightarrow> Inr ([[], ''  Raw Pool Status:''] @ raw_lines s)
            | _ \<Rightarrow> Inl AttributeError)
      else Inr [])"

definition zfs_pool_detail :: "env \<Rightarrow> (string \<times> pyval) list \<Rightarrow> error + string" where
  "zfs_pool_detail env pool =
     bindE (scan_lines env (dict_get pool ''scan'' (PDict []))) (\<lambda>scan_part.
     (let errors = dict_get pool ''errors'' (PStr ''No known data errors'')
      in bindE (layout_lines env (dict_get pool ''children'' (PList []))) (\<lambda>layout.
         bindE (raw_section (dict_get pool ''raw_status'' PNone)) (\<lambda>raw.
         Inr (join_lines
               (detail_header env pool @ scan_part @ [''  - Errors: '' @ py_str env errors]
                @ layout @ raw))))))"

section \<open>\<^verbatim>\<open>zfs_datasets\<close> and \<^verbatim>\<open>disk_list\<close>\<close>

fun dataset_block :: "env \<Rightarrow> pyval \<Rightarrow> error + string list" where
  "dataset_block env (PDict ds) =
     (let used = dict_get ds ''used'' (PInt 0);
          avail = dict_get ds ''avail'' (PInt 0)
      in bindE (format_bytes env used) (\<lambda>used_text.
         bindE (format_bytes env avail) (\<lambda>avail_text.
         Inr [[],
              ''  '' @ RESOURCES env ''storage'' @ '' ''
                @ py_str env (dict_get ds ''name'' (PStr ''unknown'')),
              ''     - Type: '' @ py_str env (dict_get ds ''type'' (PStr ''filesystem'')),
              ''     - Used: '' @ used_text,
              ''     - Available: '' @ avail_text,
              ''     - Mountpoint: '' @ py_str env (dict_get ds ''mountpoint'' (PStr ''N/A''))])))"
| "dataset_block env _ = Inl AttributeError"

definition zfs_datasets :: "env \<Rightarrow> pyval list \<Rightarrow> error + string" where
  "zfs_datasets env datasets =
     (if datasets = [] then Inr (RESOURCES env ''zfs'' @ '' No ZFS datasets found'')
      else bindE (blocks (dataset_block env) datasets) (\<lambda>body.
           Inr (join_lines ((RESOURCES env ''zfs'' @ '' ZFS Datasets'') # body))))"

text \<open>The optional last line of a disk block (lines 382 to 384).\<close>

definition wear_lines :: "env \<Rightarrow> pyval \<Rightarrow> pyval \<Rightarrow> string list" where
  "wear_lines env wearout disk_type =
     (if wearout \<noteq> PStr ''N/A'' \<and> disk_type = PStr ''ssd''
      then [''     - Wear Level: '' @ py_str env wearout @ ''%'']
      else [])"

fun disk_block :: "env \<Rightarrow> pyval \<Rightarrow> error + string list" where
  "disk_block env (PDict disk) =
     (let health = dict_get disk ''health'' (PStr ''UNKNOWN'');
          disk_type = dict_get disk ''type'' (PStr ''unknown'');
          size = dict_get disk ''size'' (PInt 0);
          used = dict_get disk ''used'' (PStr ''unused'')
      in bindE (format_bytes env size) (\<lambda>size_text.
         Inr ([[],
               ''  '' @ type_icon disk_type @ '' ''
                 @ py_str env (dict_get disk ''devpath'' (PStr ''unknown'')),
               ''     - Size: '' @ size_text,
               ''     - Model: '' @ py_str env (dict_get disk ''model'' (PStr ''N/A'')),
               ''     - Serial: '' @ py_str env (dict_get disk ''serial'' (PStr ''N/A'')),
               ''     - Health: '' @ disk_health_icon health @ '' '' @ py_str env health,
               ''     - Usage: '' @ py_str env used]
              @ wear_lines env (dict_get disk ''wearout'' (PStr ''N/A'')) disk_type)))"
| "disk_block env _ = Inl AttributeError"

definition disk_list :: "env \<Rightarrow> pyval list \<Rightarrow> error + string" where
  "disk_list env disks =
     (if disks = [] then Inr (RESOURCES env ''disk'' @ '' No disks found'')
      else bindE (blocks (disk_block env) disks) (\<lambda>body.
           Inr (join_lines ((RESOURCES env ''disk'' @ '' Disks'') # body))))"

section \<open>\<^verbatim>\<open>storage_usage\<close>\<close>

text \<open>
  Line 431: \<^verbatim>\<open>"/" in volid\<close> is defined on strings, lists and dicts, \<^verbatim>\<open>volid.split\<close> on
  strings only.
\<close>

fun vol_name_of :: "pyval \<Rightarrow> error + string" where
  "vol_name_of (PStr volid) =
     Inr (if str_contains ''/'' volid then last (split_on CHR ''/'' volid)
          else last (split_on CHR '':'' volid))"
| "vol_name_of (PList xs) = Inl AttributeError"
| "vol_name_of (PDict d) = Inl AttributeError"
| "vol_name_of _ = Inl TypeError"

text \<open>Lines 425 to 436.\<close>

fun volume_line :: "env \<Rightarrow> pyval \<Rightarrow> error + string list" where
  "volume_line env (PDict vol) =
     (let size = dict_get vol ''size'' (PInt 0);
          vmid = dict_get vol ''vmid'' PNone;
          content = dict_get vol ''content'' (PStr ''unknown'');
          volid = dict_get vol ''volid'' (PStr ''unknown'')
      in bindE (vol_name_of volid) (\<lambda>vol_name.
         (let vmid_str = (if py_truthy vmid then '' (VM '' @ py_str env vmid @ '')'' else [])
          in bindE (format_bytes env size) (\<lambda>size_text.
             Inr [''    - '' @ vol_name @ vmid_str @ '': '' @ size_text @ '' [''
                  @ py_str env content @ '']'']))))"
| "volume_line env _ = Inl AttributeError"

text \<open>
  Lines 419 to 439. \<^verbatim>\<open>volumes[:10]\<close> followed by the loop works on a list; a non-empty
  string yields characters, which have no \<^verbatim>\<open>get\<close>, and other values cannot be sliced (for
  a dict the exception is a \<^verbatim>\<open>TypeError\<close> before Python 3.12 and a \<^verbatim>\<open>KeyError\<close> since; the
  model reports the former).
\<close>

definition top_consumers :: "env \<Rightarrow> pyval \<Rightarrow> error + string list" where
  "top_consumers env volumes =
     (if py_truthy volumes
      then (case volumes of
              PList vs \<Rightarrow>
                bindE (blocks (volume_line env) (take 10 vs)) (\<lambda>ls.
                Inr ([[], ''  Top Space Consumers:''] @ ls
                     @ (if 10 < length vs
                        then [''    ... and '' @ show_int (int (length vs) - 10) @ '' more volumes'']
                        else [])))
            | PStr s \<Rightarrow> Inl AttributeError
            | _ \<Rightarrow> Inl TypeError)
      else Inr [])"

fun usage_block :: "env \<Rightarrow> pyval \<Rightarrow> error + string list" where
  "usage_block env (PDict store) =
     (let tot = dict_get store ''total'' (PInt 0);
          used = dict_get store ''used'' (PInt 0);
          avail = dict_get store ''available'' (PInt 0)
      in bindE (percent_of env used tot) (\<lambda>percent.
         bindE (py_item (PDict store) ''storage'') (\<lambda>name.
         bindE (format_bytes env tot) (\<lambda>total_text.
         bindE (format_bytes env used) (\<lambda>used_text.
         bindE (fmt_fixed env 1 percent) (\<lambda>percent_text.
         bindE (format_bytes env avail) (\<lambda>avail_text.
         bindE (top_consumers env (dict_get store ''volumes'' (PList []))) (\<lambda>top.
         Inr ([[],
               RESOURCES env ''storage'' @ '' '' @ py_str env name @ '' (''
                 @ py_str env (dict_get store ''type'' (PStr ''unknown'')) @ '')'',
               ''  Total: '' @ total_text,
               ''  Used: '' @ used_text @ '' ('' @ percent_text @ ''%)'',
               ''  Available: '' @ avail_text,
               ''  Volumes: '' @ py_str env (dict_get store ''volume_count'' (PInt 0))]
              @ top)))))))))"
| "usage_block env _ = Inl AttributeError"

definition storage_usage :: "env \<Rightarrow> pyval list \<Rightarrow> error + string" where
  "storage_usage env storages =
     (if storages = [] then Inr (RESOURCES env ''storage'' @ '' No storage data found'')
      else bindE (blocks (usage_block env) storages) (\<lambda>body.
           Inr (join_lines ((RESOURCES env ''storage'' @ '' Storage Usage Breakdown'') # body))))"

section \<open>A concrete environment, for evaluating the definitions\<close>

text \<open>
  Icons are the bracketed key, byte counts are printed with the unit \<open>B\<close>, uptimes with
  the unit \<open>s\<close>, rounding is exact, \<open>str_upper\<close> maps the ASCII letters and \<open>sort_other\<close>
  always raises.
\<close>

definition sample_bytes :: "pyval \<Rightarrow> error + string" where
  "sample_bytes v = (case v of PInt i \<Rightarrow> Inr (show_int i @ '' B'') | _ \<Rightarrow> Inl TypeError)"

definition sample_uptime :: "pyval \<Rightarrow> error + string" where
  "sample_uptime v = (case v of PInt i \<Rightarrow> Inr (show_int i @ ''s'') | _ \<Rightarrow> Inl TypeError)"

definition ascii_upper :: "char \<Rightarrow> char" where
  "ascii_upper c =
     (if 97 \<le> (of_char c :: nat) \<and> (of_char c :: nat) \<le> 122
      then char_of ((of_char c :: nat) - 32) else c)"

definition sample_env :: env where
  "sample_env =
     \<lparr>RESOURCES = (\<lambda>key. ''['' @ key @ '']''),
      format_bytes = sample_bytes,
      format_uptime = sample_uptime,
      repr_other = (\<lambda>v. ''<'' @ type_name v @ ''>''),
      round_double = (\<lambda>q. q),
      str_upper = map ascii_upper,
      sort_other = (\<lambda>volumes. Inl TypeError)\<rparr>"

text \<open>A result wrapper that hands the normalised value through unchanged.\<close>

definition sample_tool :: "pyval tool" where
  "sample_tool = \<lparr>format_response = (\<lambda>data kind. Inr data)\<rparr>"

text \<open>
  A cluster of three nodes: the pool query raises on \<open>pve2\<close> and answers on \<open>pve1\<close> and
  \<open>pve3\<close>. The storage \<open>local\<close> lists eleven volumes and its status query raises.
\<close>

definition sample_content :: pyval where
  "sample_content =
     PList (map (\<lambda>i. PDict [(''volid'', PStr (''local:100/vm-100-disk-'' @ show_int i @ ''.raw'')),
                             (''size'', PInt (i * 1024)),
                             (''vmid'', PInt 100),
                             (''content'', PStr ''images'')])
                [3, 11, 1, 7, 5, 9, 2, 10, 4, 8, 6])"

definition sample_client :: client where
  "sample_client =
     \<lparr>nodes_get = Inr (PList [PDict [(''node'', PStr ''pve1'')],
                              PDict [(''node'', PStr ''pve2'')],
                              PDict [(''node'', PStr ''pve3'')]]),
      zfs_get = (\<lambda>n. if n = PStr ''pve1''
                       then Inr (PList [PDict [(''name'', PStr ''tank''), (''health'', PStr ''ONLINE'')]])
                     else if n = PStr ''pve3''
                       then Inr (PList [PDict [(''name'', PStr ''backup'')]])
                     else Inl (External ''595 no route to host'')),
      zfs_pool_get = (\<lambda>n p. Inr (PStr ''state: DEGRADED'')),
      storage_get = (\<lambda>n. Inr (PList [PDict [(''storage'', PStr ''local''), (''type'', PStr ''dir'')]])),
      content_get = (\<lambda>n s. Inr sample_content),
      status_get = (\<lambda>n s. Inl (External ''500 status unavailable''))\<rparr>"

text \<open>The volume entry the normaliser builds for the \<open>i\<close>-th sample volume.\<close>

definition sample_volume :: "int \<Rightarrow> (string \<times> pyval) list" where
  "sample_volume i =
     [(''volid'', PStr (''local:100/vm-100-disk-'' @ show_int i @ ''.raw'')),
      (''format'', PStr ''unknown''),
      (''size'', PInt (i * 1024)),
      (''vmid'', PInt 100),
      (''content'', PStr ''images''),
      (''ctime'', PNone)]"

section \<open>The words of the claims about the multi-node sweep\<close>

text \<open>
  A per-node pool query either raises or succeeds with a list of pool dictionaries. The
  pool records of a succeeding node are the records built from its pools; the warnings
  name each failing node and its error.
\<close>

fun is_dict :: "pyval \<Rightarrow> bool" where
  "is_dict (PDict d) = True"
| "is_dict _ = False"

definition raises_or_succeeds :: "client \<Rightarrow> pyval \<Rightarrow> bool" where
  "raises_or_succeeds cl node_name =
     (case zfs_get cl node_name of
        Inl e \<Rightarrow> True
      | Inr (PList ps) \<Rightarrow> list_all is_dict ps
      | Inr _ \<Rightarrow> False)"

definition pool_records :: "pyval \<Rightarrow> pyval list \<Rightarrow> pyval list" where
  "pool_records node_name ps =
     concat (map (\<lambda>p. case pool_data node_name p of Inl e \<Rightarrow> [] | Inr pd \<Rightarrow> [pd]) ps)"

definition succeeding_pools :: "client \<Rightarrow> pyval list \<Rightarrow> pyval list" where
  "succeeding_pools cl names =
     concat (map (\<lambda>n. case zfs_get cl n of Inr (PList ps) \<Rightarrow> pool_records n ps | _ \<Rightarrow> []) names)"

definition failing_warnings :: "client \<Rightarrow> pyval list \<Rightarrow> log_entry list" where
  "failing_warnings cl names =
     concat (map (\<lambda>n. case zfs_get cl n of Inl e \<Rightarrow> [node_warning n e] | Inr v \<Rightarrow> []) names)"

section \<open>The words of the claims about percentages\<close>

text \<open>
  The text a renderer shows for a percentage: the value of the guarded expression under
  the format \<^verbatim>\<open>.1f\<close>.
\<close>

definition percent_text :: "env \<Rightarrow> pyval \<Rightarrow> pyval \<Rightarrow> error + string" where
  "percent_text env part whole = bindE (percent_of env part whole) (fmt_fixed env 1)"

text \<open>A whole that is a number and not above zero.\<close>

fun not_positive :: "pyval \<Rightarrow> bool" where
  "not_positive (PBool b) = (\<not> b)"
| "not_positive (PInt i) = (i \<le> 0)"
| "not_positive (PFloat (Fin q)) = (q \<le> 0)"
| "not_positive (PFloat NegZero) = True"
| "not_positive (PFloat NegInf) = True"
| "not_positive _ = False"

text \<open>
  A line shows the percentage of a pair behind a label, in the layout of the node, VM,
  container and storage-pool renderers (both byte counts, then the percentage) and in
  the layout of the pool and storage-usage renderers (the part, then the percentage).
\<close>

definition shows_usage :: "env \<Rightarrow> string \<Rightarrow> pyval \<Rightarrow> pyval \<Rightarrow> string \<Rightarrow> bool" where
  "shows_usage env label part whole line =
     (case format_bytes env part of
        Inl e \<Rightarrow> False
      | Inr u \<Rightarrow>
          (case format_bytes env whole of
             Inl e \<Rightarrow> False
           | Inr t \<Rightarrow>
               (case percent_text env part whole of
                  Inl e \<Rightarrow> False
                | Inr p \<Rightarrow> line = label @ u @ '' / '' @ t @ '' ('' @ p @ ''%)'')))"

definition shows_used :: "env \<Rightarrow> string \<Rightarrow> pyval \<Rightarrow> pyval \<Rightarrow> string \<Rightarrow> bool" where
  "shows_used env label part whole line =
     (case format_bytes env part of
        Inl e \<Rightarrow> False
      | Inr u \<Rightarrow>
          (case percent_text env part whole of
             Inl e \<Rightarrow> False
           | Inr p \<Rightarrow> line = label @ u @ '' ('' @ p @ ''%)''))"

section \<open>Helper lemmas\<close>

lemma bindE_Inr_iff:
  "bindE m f = Inr y \<longleftrightarrow> (\<exists>x. m = Inr x \<and> f x = Inr y)"
  by (cases m) (simp_all add: bindE_def)

lemma bindE_simps [simp]: "bindE (Inl e) f = Inl e" "bindE (Inr x) f = f x"
  by (simp_all add: bindE_def)

lemma join_lines_append:
  "xs \<noteq> [] \<Longrightarrow> ys \<noteq> [] \<Longrightarrow> join_lines (xs @ ys) = join_lines xs @ newline # join_lines ys"
proof (induction xs rule: join_lines.induct)
  case 1
  then show ?case by simp
next
  case (2 l)
  then show ?case by (cases ys) simp_all
next
  case (3 l m ls)
  then show ?case by simp
qed

lemma dict_get_other:
  "k \<noteq> k' \<Longrightarrow> dict_get ((k', v) # d) k dflt = dict_get d k dflt"
  by (simp add: dict_get_def)

lemma dict_get_absent:
  "map_of d k = None \<Longrightarrow> dict_get d k dflt = dflt"
  by (simp add: dict_get_def)

lemma dict_get_first:
  "dict_get ((k, v) # d) k dflt = v"
  by (simp add: dict_get_def)

lemma detail_header_raw:
  "detail_header env ((''raw_status'', v) # pool) = detail_header env pool"
  by (simp add: detail_header_def dict_get_other)

lemma raw_lines_indented: "list_all (starts_with ''    '') (raw_lines s)"
  by (simp add: raw_lines_def list_all_iff)

lemma raw_status_first:
  assumes "map_of pool ''raw_status'' = None"
  shows "zfs_pool_detail env ((''raw_status'', PStr s) # pool) =
           (case zfs_pool_detail env pool of
              Inl e \<Rightarrow> Inl e
            | Inr text \<Rightarrow>
                Inr (if s = [] then text
                     else text @ newline # join_lines ([[], ''  Raw Pool Status:''] @ raw_lines s)))
     \<and> list_all (starts_with ''    '') (raw_lines s)
     \<and> zfs_pool_detail env ((''raw_status'', PNone) # pool) = zfs_pool_detail env pool
     \<and> zfs_pool_detail env pool =
           bindE (scan_lines env (dict_get pool ''scan'' (PDict []))) (\<lambda>scan_part.
           bindE (layout_lines env (dict_get pool ''children'' (PList []))) (\<lambda>layout.
           Inr (join_lines
                 (detail_header env pool @ scan_part
                  @ [''  - Errors: '' @ py_str env (dict_get pool ''errors'' (PStr ''No known data errors''))]
                  @ layout))))"
proof -
  have hd_ne: "detail_header env pool @ a @ [b] @ c \<noteq> []" for a b c
    by simp
  have base: "zfs_pool_detail env pool =
           bindE (scan_lines env (dict_get pool ''scan'' (PDict []))) (\<lambda>scan_part.
           bindE (layout_lines env (dict_get pool ''children'' (PList []))) (\<lambda>layout.
           Inr (join_lines
                 (detail_header env pool @ scan_part
                  @ [''  - Errors: '' @ py_str env (dict_get pool ''errors'' (PStr ''No known data errors''))]
                  @ layout))))"
    using assms by (simp add: zfs_pool_detail_def Let_def dict_get_absent raw_section_def)
  have none: "zfs_pool_detail env ((''raw_status'', PNone) # pool) = zfs_pool_detail env pool"
    unfolding base
    by (simp add: zfs_pool_detail_def Let_def dict_get_other dict_get_first detail_header_raw
        raw_section_def)
  have str: "zfs_pool_detail env ((''raw_status'', PStr s) # pool) =
           (case zfs_pool_detail env pool of
              Inl e \<Rightarrow> Inl e
            | Inr text \<Rightarrow>
                Inr (if s = [] then text
                     else text @ newline # join_lines ([[], ''  Raw Pool Status:''] @ raw_lines s)))"
  proof (cases "scan_lines env (dict_get pool ''scan'' (PDict []))")
    case (Inl e)
    then show ?thesis
      unfolding base
      by (simp add: zfs_pool_detail_def Let_def dict_get_other dict_get_first detail_header_raw)
  next
    case scan: (Inr sp)
    show ?thesis
    proof (cases "layout_lines env (dict_get pool ''children'' (PList []))")
      case (Inl e)
      with scan show ?thesis
        unfolding base
        by (simp add: zfs_pool_detail_def Let_def dict_get_other dict_get_first detail_header_raw)
    next
      case (Inr lay)
      have "join_lines ((detail_header env pool @ sp @ [b] @ lay) @ ([] # ''  Raw Pool Status:'' # raw_lines s))
            = join_lines (detail_header env pool @ sp @ [b] @ lay)
              @ newline # join_lines ([] # ''  Raw Pool Status:'' # raw_lines s)" for b
        by (rule join_lines_append) (simp_all add: detail_header_def Let_def)
      with scan Inr show ?thesis
        unfolding base
        by (simp add: zfs_pool_detail_def Let_def dict_get_other dict_get_first detail_header_raw
            raw_section_def)
    qed
  qed
  from str raw_lines_indented none base show ?thesis by blast
qed

lemma zfs_pool_detail_cong:
  "map_of p = map_of q \<Longrightarrow> zfs_pool_detail env p = zfs_pool_detail env q"
  by (simp add: zfs_pool_detail_def detail_header_def dict_get_def)

lemma round_half_even_near: "\<bar>of_int (round_half_even q) - q\<bar> \<le> 1 / 2"
proof -
  have "of_int \<lfloor>q\<rfloor> \<le> q" "q < of_int \<lfloor>q\<rfloor> + 1"
    by linarith+
  then show ?thesis
    by (auto simp: round_half_even_def Let_def)
qed

lemma sample_volumes:
  "bindE (py_iter sample_content) (\<lambda>items. bindE (volume_entries items) (sort_by_size sample_env))
     = Inr (map sample_volume [11, 10, 9, 8, 7, 6, 5, 4, 3, 2, 1])"
  by code_simp

lemma collect_pools_dicts:
  "list_all is_dict ps \<Longrightarrow> collect_pools n ps acc = (acc @ pool_records n ps, None)"
proof (induction ps arbitrary: acc)
  case Nil
  then show ?case by (simp add: pool_records_def)
next
  case (Cons p ps)
  from Cons.prems obtain d where p: "p = PDict d" by (cases p) auto
  from Cons.prems have "list_all is_dict ps" by simp
  then have "collect_pools n ps acc' = (acc' @ pool_records n ps, None)" for acc'
    by (rule Cons.IH)
  then show ?case using p by (simp add: pool_records_def)
qed

lemma sweep_nodes_partial:
  "map (\<lambda>i. py_item i ''node'') infos = map Inr names \<Longrightarrow> list_all (raises_or_succeeds cl) names
   \<Longrightarrow> sweep_nodes cl infos pools logged
       = (logged @ failing_warnings cl names, Inr (pools @ succeeding_pools cl names))"
proof (induction infos arbitrary: names pools logged)
  case Nil
  then show ?case by (simp add: failing_warnings_def succeeding_pools_def)
next
  case (Cons info infos)
  from Cons.prems(1) obtain n ns where names: "names = n # ns"
    and n: "py_item info ''node'' = Inr n"
    and rest: "map (\<lambda>i. py_item i ''node'') infos = map Inr ns"
    by (cases names) auto
  from Cons.prems(2) names have ok: "raises_or_succeeds cl n" and oks: "list_all (raises_or_succeeds cl) ns"
    by simp_all
  note IH = Cons.IH [OF rest oks]
  show ?case
  proof (cases "zfs_get cl n")
    case (Inl e)
    then show ?thesis
      using n names IH by (simp add: failing_warnings_def succeeding_pools_def)
  next
    case (Inr v)
    with ok obtain ps where v: "v = PList ps" and d: "list_all is_dict ps"
      by (cases v) (auto simp: raises_or_succeeds_def)
    from Inr v d show ?thesis
      using n names IH
      by (simp add: failing_warnings_def succeeding_pools_def collect_pools_dicts)
  qed
qed

lemma starts_with_prefix: "starts_with p s = prefix p s"
  by (induction p s rule: starts_with.induct) auto

lemma str_contains_sublist: "str_contains n s = sublist n s"
  by (induction s) (auto simp: starts_with_prefix sublist_Cons_right)

lemma blocks_Inr:
  "blocks f xs = Inr ls \<Longrightarrow> \<exists>bs. list_all2 (\<lambda>x b. f x = Inr b) xs bs \<and> ls = concat bs"
proof (induction xs arbitrary: ls)
  case Nil
  then show ?case by simp
next
  case (Cons x xs)
  from Cons.prems obtain b rest where fx: "f x = Inr b" and r: "blocks f xs = Inr rest"
    and ls: "ls = b @ rest"
    by (auto split: sum.splits)
  from Cons.IH [OF r] obtain bs where "list_all2 (\<lambda>x b. f x = Inr b) xs bs" "rest = concat bs"
    by blast
  with fx ls have "list_all2 (\<lambda>x b. f x = Inr b) (x # xs) (b # bs) \<and> ls = concat (b # bs)"
    by simp
  then show ?case by blast
qed

lemma split_on_no_sep: "sep \<notin> set l \<Longrightarrow> split_on sep l = [l]"
  by (induction l) auto

lemma split_on_append_sep:
  "sep \<notin> set l \<Longrightarrow> split_on sep (l @ sep # rest) = l # split_on sep rest"
  by (induction l) auto

lemma split_join_lines:
  "ls \<noteq> [] \<Longrightarrow> list_all (\<lambda>l. newline \<notin> set l) ls \<Longrightarrow> split_on newline (join_lines ls) = ls"
proof (induction ls rule: join_lines.induct)
  case 1
  then show ?case by simp
next
  case (2 l)
  then show ?case by (simp add: split_on_no_sep)
next
  case (3 l m ls)
  then show ?case by (simp add: split_on_append_sep)
qed

lemma disk_block_lines:
  assumes "disk_block env disk = Inr b"
  shows "\<exists>d. disk = PDict d
     \<and> length (take 7 b) = 7
     \<and> list_all (\<lambda>l. \<not> starts_with ''     - Wear Level: '' l) (take 7 b)
     \<and> drop 7 b =
         (if dict_get d ''type'' (PStr ''unknown'') = PStr ''ssd''
             \<and> dict_get d ''wearout'' (PStr ''N/A'') \<noteq> PStr ''N/A''
          then [''     - Wear Level: '' @ py_str env (dict_get d ''wearout'' (PStr ''N/A'')) @ ''%'']
          else [])"
  using assms
  by (cases disk)
     (auto simp: Let_def bindE_Inr_iff wear_lines_def type_icon_def ssd_icon_def hdd_icon_def)

lemma fixed_zero: "fixed (Suc 0) 0 = ''0.0''"
  by code_simp

lemma fixed_25: "fixed (Suc 0) 25 = ''25.0''"
  by code_simp

lemma fixed_135: "fixed 2 (3039929748475085 / 2251799813685248) = ''1.35''"
  by code_simp

lemma int_to_float_small [simp]: "\<bar>i\<bar> \<le> 2 ^ 53 \<Longrightarrow> int_to_float env i = Inr (Fin (of_int i))"
  by (simp add: int_to_float_def)

lemma percent_zero_text: "fmt_fixed env (Suc 0) (PInt 0) = Inr ''0.0''"
  by (simp add: fixed_zero)

lemma zfs_pool_block_lines:
  assumes "zfs_pool_block env pool = Inr b"
  shows "\<exists>d. pool = PDict d
     \<and> length (take 7 b) = 7
     \<and> list_all (\<lambda>l. \<not> starts_with ''  - Dedup Ratio: '' l) (take 5 (drop 2 b))
     \<and> (if py_truthy (dict_get d ''dedup'' (PFloat (Fin 1)))
            \<and> differs_from_one (dict_get d ''dedup'' (PFloat (Fin 1)))
         then \<exists>r. fmt_fixed env 2 (dict_get d ''dedup'' (PFloat (Fin 1))) = Inr r
                \<and> drop 7 b = [''  - Dedup Ratio: '' @ r @ ''x'']
         else drop 7 b = [])"
  using assms
  by (cases pool) (auto simp: Let_def bindE_Inr_iff dedup_lines_def split: if_splits)

lemma mset_sort_desc: "mset (sort_desc k xs) = mset xs"
  by (simp add: sort_desc_def)

lemma sorted_sort_desc: "sorted (rev (map k (sort_desc k xs)))"
  by (simp add: sort_desc_def rev_map [symmetric])

lemma sort_by_size_mset: "sort_by_size env u = Inr vs \<Longrightarrow> mset vs = mset u"
  by (auto simp: sort_by_size_def Let_def mset_sort_desc split: if_splits sum.splits)

lemma short_sorted: "length vs < 2 \<Longrightarrow> sorted (rev (map k vs))"
proof -
  assume "length vs < 2"
  then consider "vs = []" | x where "vs = [x]"
    by (cases vs) (auto simp: numeral_2_eq_2)
  then show ?thesis by cases simp_all
qed

lemma sort_by_size_num_sorted:
  assumes "sort_by_size env u = Inr vs"
    and "list_all (\<lambda>v. num_key (dict_get v ''size'' PNone) \<noteq> None) vs"
  shows "sorted (rev (map (\<lambda>v. the (num_key (dict_get v ''size'' PNone))) vs))"
proof (cases "length u < 2")
  case True
  with assms(1) have "vs = u" by (simp add: sort_by_size_def)
  with True show ?thesis by (simp add: short_sorted)
next
  case False
  from sort_by_size_mset [OF assms(1)] have "set vs = set u"
    by (rule mset_eq_setD)
  with assms(2) have "list_all (\<lambda>v. num_key (dict_get v ''size'' PNone) \<noteq> None) u"
    by (simp add: list_all_iff)
  with False assms(1) have "vs = sort_desc (\<lambda>x. the (num_key (dict_get x ''size'' PNone))) u"
    by (simp add: sort_by_size_def)
  then show ?thesis by (simp add: sorted_sort_desc)
qed

lemma sort_by_size_str_sorted:
  assumes "sort_by_size env u = Inr vs"
    and "list_all (\<lambda>v. py_strkey (dict_get v ''size'' PNone) \<noteq> None) vs"
  shows "sorted (rev (map (\<lambda>v. the (py_strkey (dict_get v ''size'' PNone))) vs))"
proof (cases "length u < 2")
  case True
  with assms(1) have "vs = u" by (simp add: sort_by_size_def)
  with True show ?thesis by (simp add: short_sorted)
next
  case False
  from sort_by_size_mset [OF assms(1)] have "set vs = set u"
    by (rule mset_eq_setD)
  with assms(2) have str: "list_all (\<lambda>v. py_strkey (dict_get v ''size'' PNone) \<noteq> None) u"
    by (simp add: list_all_iff)
  from False obtain x where "x \<in> set u" by (cases u) auto
  with str have "py_strkey (dict_get x ''size'' PNone) \<noteq> None" by (simp add: list_all_iff)
  then have "num_key (dict_get x ''size'' PNone) = None"
    by (cases "dict_get x ''size'' PNone") auto
  with \<open>x \<in> set u\<close> have "\<not> list_all (\<lambda>v. num_key (dict_get v ''size'' PNone) \<noteq> None) u"
    unfolding list_all_iff by (intro notI) (drule bspec, assumption, simp)
  with False str assms(1) have "vs = sort_desc (\<lambda>x. the (py_strkey (dict_get x ''size'' PNone))) u"
    by (simp add: sort_by_size_def)
  then show ?thesis by (simp add: sorted_sort_desc)
qed

lemma top_are_largest:
  assumes "sorted (rev (map k vs))"
  shows "list_all (\<lambda>v. list_all (\<lambda>w. k w \<le> k v) (drop m vs)) (take m vs)"
proof -
  have "rev (map k vs) = rev (map k (drop m vs)) @ rev (map k (take m vs))"
    by (simp add: rev_append [symmetric] map_append [symmetric] del: rev_append map_append)
  with assms have "sorted (rev (map k (drop m vs)) @ rev (map k (take m vs)))" by simp
  then have "\<forall>x\<in>set (map k (drop m vs)). \<forall>y\<in>set (map k (take m vs)). x \<le> y"
    by (simp add: sorted_append)
  then show ?thesis by (auto simp: list_all_iff)
qed

lemma usage_record_shape:
  assumes "usage_record cl env node store store_name = Inr record"
  shows "\<exists>r unsorted vs. record = PDict r \<and> sort_by_size env unsorted = Inr vs
           \<and> dict_get r ''volumes'' (PList []) = PList (map PDict vs)
           \<and> dict_get r ''volume_count'' (PInt 0) = PInt (int (length vs))"
proof -
  obtain tot used avail where st: "status_totals cl node store_name = (tot, used, avail)"
    by (cases "status_totals cl node store_name")
  from assms st obtain unsorted vs ty where "sort_by_size env unsorted = Inr vs"
    and "record = PDict [(''storage'', store_name), (''type'', ty), (''total'', tot), (''used'', used),
              (''available'', avail), (''volumes'', PList (map PDict vs)),
              (''volume_count'', PInt (int (length vs)))]"
    by (auto simp: usage_record_def bindE_Inr_iff)
  then show ?thesis
    by (auto simp: dict_get_def)
qed

lemma usage_loop_records:
  "usage_loop cl env node storage stores usage_data logged = (logged', Inr records)
   \<Longrightarrow> list_all (\<lambda>rec. \<exists>store name. usage_record cl env node store name = Inr rec) usage_data
   \<Longrightarrow> list_all (\<lambda>rec. \<exists>store name. usage_record cl env node store name = Inr rec) records"
proof (induction cl env node storage stores usage_data logged rule: usage_loop.induct)
  case (1 cl env node storage usage_data logged)
  then show ?case by simp
next
  case (2 cl env node storage store rest usage_data logged)
  show ?case
  proof (cases "if storage \<noteq> None \<and> storage \<noteq> Some []
            then bindE (py_item store ''storage'') (\<lambda>s. Inr (s \<noteq> PStr (the storage)))
            else Inr False")
    case (Inl e)
    with "2.prems"(1) show ?thesis by simp
  next
    case skip: (Inr b)
    show ?thesis
    proof (cases b)
      case True
      with skip "2.prems" "2.IH"(1) show ?thesis by simp
    next
      case False
      show ?thesis
      proof (cases "py_item store ''storage''")
        case (Inl e)
        with skip False "2.prems"(1) show ?thesis by simp
      next
        case name: (Inr store_name)
        show ?thesis
        proof (cases "usage_record cl env node store store_name")
          case (Inl e)
          with skip False name "2.prems" "2.IH"(2) show ?thesis by simp
        next
          case (Inr r)
          with skip False name "2.prems" "2.IH"(3) [of b store_name r] show ?thesis
            by auto
        qed
      qed
    qed
  qed
qed

lemma volume_line_single:
  "volume_line env v = Inr l \<Longrightarrow> length l = 1"
  by (cases v) (auto simp: Let_def bindE_Inr_iff)

lemma blocks_volume_line_length:
  "blocks (volume_line env) xs = Inr ls \<Longrightarrow> length ls = length xs"
proof (induction xs arbitrary: ls)
  case Nil
  then show ?case by simp
next
  case (Cons x xs)
  then show ?case
    by (auto split: sum.splits dest: volume_line_single)
qed

lemma top_consumers_list:
  assumes "top_consumers env (PList (map PDict vs)) = Inr consumers"
  shows "\<exists>vls. blocks (volume_line env) (map PDict (take 10 vs)) = Inr vls
           \<and> length vls = min 10 (length vs)
           \<and> consumers = (if vs = [] then []
                    else [[], ''  Top Space Consumers:''] @ vls
                         @ (if 10 < length vs
                            then [''    ... and '' @ show_int (int (length vs) - 10) @ '' more volumes'']
                            else []))"
proof (cases "vs = []")
  case True
  with assms show ?thesis by (simp add: top_consumers_def)
next
  case False
  with assms obtain vls where b: "blocks (volume_line env) (take 10 (map PDict vs)) = Inr vls"
    and t: "consumers = [[], ''  Top Space Consumers:''] @ vls
                  @ (if 10 < length vs
                     then [''    ... and '' @ show_int (int (length vs) - 10) @ '' more volumes'']
                     else [])"
    by (auto simp: top_consumers_def bindE_Inr_iff)
  from b have "length vls = min 10 (length vs)"
    by (auto dest!: blocks_volume_line_length simp: min_def)
  with b t False show ?thesis by (simp add: take_map)
qed

lemma usage_block_lines:
  assumes "usage_block env record = Inr b"
    and "usage_record cl env node store store_name = Inr record"
  shows "\<exists>r volumes vls. record = PDict r
     \<and> dict_get r ''volumes'' (PList []) = PList (map PDict volumes)
     \<and> length (take 6 b) = 6
     \<and> b ! 5 = ''  Volumes: '' @ show_int (int (length volumes))
     \<and> blocks (volume_line env) (map PDict (take 10 volumes)) = Inr vls
     \<and> length vls = min 10 (length volumes)
     \<and> drop 6 b =
         (if volumes = [] then []
          else [[], ''  Top Space Consumers:''] @ vls
               @ (if 10 < length volumes
                  then [''    ... and '' @ show_int (int (length volumes) - 10) @ '' more volumes'']
                  else []))
     \<and> (list_all (\<lambda>v. num_key (dict_get v ''size'' PNone) \<noteq> None) volumes \<longrightarrow>
          list_all
            (\<lambda>v. list_all
                   (\<lambda>w. the (num_key (dict_get w ''size'' PNone))
                          \<le> the (num_key (dict_get v ''size'' PNone)))
                   (drop 10 volumes))
            (take 10 volumes))
     \<and> (list_all (\<lambda>v. py_strkey (dict_get v ''size'' PNone) \<noteq> None) volumes \<longrightarrow>
          list_all
            (\<lambda>v. list_all
                   (\<lambda>w. the (py_strkey (dict_get w ''size'' PNone))
                          \<le> the (py_strkey (dict_get v ''size'' PNone)))
                   (drop 10 volumes))
            (take 10 volumes))"
proof -
  from usage_record_shape [OF assms(2)] obtain r unsorted volumes where
    rec: "record = PDict r"
    and srt: "sort_by_size env unsorted = Inr volumes"
    and v: "dict_get r ''volumes'' (PList []) = PList (map PDict volumes)"
    and c: "dict_get r ''volume_count'' (PInt 0) = PInt (int (length volumes))"
    by blast
  from assms(1) rec obtain consumers where
    tc: "top_consumers env (PList (map PDict volumes)) = Inr consumers"
    and six: "length (take 6 b) = 6"
    and cnt: "b ! 5 = ''  Volumes: '' @ py_str env (dict_get r ''volume_count'' (PInt 0))"
    and rest: "drop 6 b = consumers"
    by (auto simp: Let_def bindE_Inr_iff v)
  from cnt c have count: "b ! 5 = ''  Volumes: '' @ show_int (int (length volumes))"
    by simp
  from top_consumers_list [OF tc] rest obtain vls where
    vls: "blocks (volume_line env) (map PDict (take 10 volumes)) = Inr vls"
    and len: "length vls = min 10 (length volumes)"
    and dr: "drop 6 b =
         (if volumes = [] then []
          else [[], ''  Top Space Consumers:''] @ vls
               @ (if 10 < length volumes
                  then [''    ... and '' @ show_int (int (length volumes) - 10) @ '' more volumes'']
                  else []))"
    by auto
  have num: "list_all
            (\<lambda>v. list_all
                   (\<lambda>w. the (num_key (dict_get w ''size'' PNone))
                          \<le> the (num_key (dict_get v ''size'' PNone)))
                   (drop 10 volumes))
            (take 10 volumes)"
    if "list_all (\<lambda>v. num_key (dict_get v ''size'' PNone) \<noteq> None) volumes"
    using sort_by_size_num_sorted [OF srt that] by (rule top_are_largest)
  have str: "list_all
            (\<lambda>v. list_all
                   (\<lambda>w. the (py_strkey (dict_get w ''size'' PNone))
                          \<le> the (py_strkey (dict_get v ''size'' PNone)))
                   (drop 10 volumes))
            (take 10 volumes)"
    if "list_all (\<lambda>v. py_strkey (dict_get v ''size'' PNone) \<noteq> None) volumes"
    using sort_by_size_str_sorted [OF srt that] by (rule top_are_largest)
  from rec v six count vls len dr num str show ?thesis by blast
qed

lemma sample_usage_record:
  "usage_record sample_client sample_env ''pve1''
       (PDict [(''storage'', PStr ''local''), (''type'', PStr ''dir'')]) (PStr ''local'')
     = Inr (PDict
         [(''storage'', PStr ''local''),
          (''type'', PStr ''dir''),
          (''total'', PInt 0),
          (''used'', PInt 0),
          (''available'', PInt 0),
          (''volumes'', PList (map PDict (map sample_volume [11, 10, 9, 8, 7, 6, 5, 4, 3, 2, 1]))),
          (''volume_count'', PInt 11)])"
  by code_simp

lemma usage_line_shows:
  assumes "percent_of env part whole = Inr pc"
    and "usage_line env label part whole pc = Inr line"
  shows "shows_usage env label part whole line"
  using assms
  by (auto simp: usage_line_def shows_usage_def percent_text_def bindE_Inr_iff)

lemma node_block_shows:
  assumes "node_block env node = Inr b"
  shows "\<exists>d m. node = PDict d \<and> dict_get d ''memory'' (PDict []) = PDict m
     \<and> shows_usage env ''  - Memory: '' (dict_get m ''used'' (PInt 0)) (dict_get m ''total'' (PInt 0)) (b ! 5)
     \<and> (if py_truthy (dict_get d ''disk'' (PDict []))
         then \<exists>k. dict_get d ''disk'' (PDict []) = PDict k \<and> length b = 7
                \<and> shows_usage env ''  - Disk: '' (dict_get k ''used'' (PInt 0))
                     (dict_get k ''total'' (PInt 0)) (b ! 6)
         else length b = 6)"
proof -
  from assms obtain d where d: "node = PDict d"
    by (cases node) auto
  from assms d obtain mu mt where mu: "py_get (dict_get d ''memory'' (PDict [])) ''used'' (PInt 0) = Inr mu"
    and mt: "py_get (dict_get d ''memory'' (PDict [])) ''total'' (PInt 0) = Inr mt"
    by (auto simp: Let_def bindE_Inr_iff)
  then obtain m where m: "dict_get d ''memory'' (PDict []) = PDict m"
    by (cases "dict_get d ''memory'' (PDict [])") auto
  with mu mt have mum: "mu = dict_get m ''used'' (PInt 0)" "mt = dict_get m ''total'' (PInt 0)"
    by auto
  from assms d m mum obtain pc ml where pc: "percent_of env mu mt = Inr pc"
    and ml: "usage_line env ''  - Memory: '' mu mt pc = Inr ml"
    by (auto simp: Let_def bindE_Inr_iff)
  have mem: "b ! 5 = ml"
    using assms d m mum pc ml
    by (auto simp: Let_def bindE_Inr_iff split: if_splits)
  note shows_mem = usage_line_shows [OF pc ml]
  show ?thesis
  proof (cases "py_truthy (dict_get d ''disk'' (PDict []))")
    case False
    with assms d m mum pc ml have "length b = 6"
      by (auto simp: Let_def bindE_Inr_iff)
    with False d m mem shows_mem mum show ?thesis by auto
  next
    case True
    with assms d m mum pc ml obtain du dt dpc dl where
      du: "py_get (dict_get d ''disk'' (PDict [])) ''used'' (PInt 0) = Inr du"
      and dt: "py_get (dict_get d ''disk'' (PDict [])) ''total'' (PInt 0) = Inr dt"
      and dpc: "percent_of env du dt = Inr dpc"
      and dl: "usage_line env ''  - Disk: '' du dt dpc = Inr dl"
      and len: "length b = 7" and b6: "b ! 6 = dl"
      by (auto simp: Let_def bindE_Inr_iff)
    from du obtain k where k: "dict_get d ''disk'' (PDict []) = PDict k"
      by (cases "dict_get d ''disk'' (PDict [])") auto
    with du dt have "du = dict_get k ''used'' (PInt 0)" "dt = dict_get k ''total'' (PInt 0)"
      by auto
    with usage_line_shows [OF dpc dl] b6
    have "shows_usage env ''  - Disk: '' (dict_get k ''used'' (PInt 0)) (dict_get k ''total'' (PInt 0)) (b ! 6)"
      by simp
    with True d m mem shows_mem mum k len show ?thesis by auto
  qed
qed

lemma node_status_shows:
  assumes "node_status env node status = Inr text"
  shows "\<exists>ls m. text = join_lines ls \<and> dict_get status ''memory'' (PDict []) = PDict m
     \<and> shows_usage env ''  - Memory: '' (dict_get m ''used'' (PInt 0)) (dict_get m ''total'' (PInt 0)) (ls ! 4)
     \<and> (if py_truthy (dict_get status ''disk'' (PDict []))
         then \<exists>k. dict_get status ''disk'' (PDict []) = PDict k \<and> length ls = 6
                \<and> shows_usage env ''  - Disk: '' (dict_get k ''used'' (PInt 0))
                     (dict_get k ''total'' (PInt 0)) (ls ! 5)
         else length ls = 5)"
proof -
  from assms obtain mu mt where mu: "py_get (dict_get status ''memory'' (PDict [])) ''used'' (PInt 0) = Inr mu"
    and mt: "py_get (dict_get status ''memory'' (PDict [])) ''total'' (PInt 0) = Inr mt"
    by (auto simp: node_status_def Let_def bindE_Inr_iff)
  then obtain m where m: "dict_get status ''memory'' (PDict []) = PDict m"
    by (cases "dict_get status ''memory'' (PDict [])") auto
  with mu mt have mum: "mu = dict_get m ''used'' (PInt 0)" "mt = dict_get m ''total'' (PInt 0)"
    by auto
  from assms m mum obtain pc ml su up where pc: "percent_of env mu mt = Inr pc"
    and ml: "usage_line env ''  - Memory: '' mu mt pc = Inr ml"
    and su: "py_upper env (dict_get status ''status'' (PStr ''unknown'')) = Inr su"
    and up: "format_uptime env (dict_get status ''uptime'' (PInt 0)) = Inr up"
    by (auto simp: node_status_def Let_def bindE_Inr_iff)
  note shows_mem = usage_line_shows [OF pc ml]
  let ?result = "[RESOURCES env ''node'' @ '' Node: '' @ node,
                 ''  - Status: '' @ su,
                 ''  - Uptime: '' @ up,
                 ''  - CPU Cores: '' @ py_str env (dict_get status ''maxcpu'' (PStr ''N/A'')),
                 ml]"
  show ?thesis
  proof (cases "py_truthy (dict_get status ''disk'' (PDict []))")
    case False
    with assms m mum pc ml su up have "text = join_lines ?result"
      by (simp add: node_status_def Let_def)
    moreover have "?result ! 4 = ml" "length ?result = 5" by simp_all
    ultimately show ?thesis using False m shows_mem mum
      by (intro exI [of _ ?result] exI [of _ m]) simp
  next
    case True
    with assms m mum pc ml su up obtain du dt dpc dl where
      du: "py_get (dict_get status ''disk'' (PDict [])) ''used'' (PInt 0) = Inr du"
      and dt: "py_get (dict_get status ''disk'' (PDict [])) ''total'' (PInt 0) = Inr dt"
      and dpc: "percent_of env du dt = Inr dpc"
      and dl: "usage_line env ''  - Disk: '' du dt dpc = Inr dl"
      and t: "text = join_lines (?result @ [dl])"
      by (auto simp: node_status_def Let_def bindE_Inr_iff)
    from du obtain k where k: "dict_get status ''disk'' (PDict []) = PDict k"
      by (cases "dict_get status ''disk'' (PDict [])") auto
    with du dt have "du = dict_get k ''used'' (PInt 0)" "dt = dict_get k ''total'' (PInt 0)"
      by auto
    with usage_line_shows [OF dpc dl]
    have sd: "shows_usage env ''  - Disk: '' (dict_get k ''used'' (PInt 0)) (dict_get k ''total'' (PInt 0)) dl"
      by simp
    have "(?result @ [dl]) ! 4 = ml" "(?result @ [dl]) ! 5 = dl" "length (?result @ [dl]) = 6"
      by simp_all
    with t True m shows_mem mum k sd show ?thesis
      by (intro exI [of _ "?result @ [dl]"] exI [of _ m]) auto
  qed
qed

lemma instance_block_shows:
  assumes "instance_block env kind vm = Inr b"
  shows "\<exists>d m. vm = PDict d \<and> dict_get d ''memory'' (PDict []) = PDict m \<and> length b = 6
     \<and> shows_usage env ''  - Memory: '' (dict_get m ''used'' (PInt 0)) (dict_get m ''total'' (PInt 0)) (b ! 5)"
proof -
  from assms obtain d where d: "vm = PDict d"
    by (cases vm) auto
  from assms d obtain mu mt where mu: "py_get (dict_get d ''memory'' (PDict [])) ''used'' (PInt 0) = Inr mu"
    and mt: "py_get (dict_get d ''memory'' (PDict [])) ''total'' (PInt 0) = Inr mt"
    by (auto simp: Let_def bindE_Inr_iff)
  then obtain m where m: "dict_get d ''memory'' (PDict []) = PDict m"
    by (cases "dict_get d ''memory'' (PDict [])") auto
  with mu mt have mum: "mu = dict_get m ''used'' (PInt 0)" "mt = dict_get m ''total'' (PInt 0)"
    by auto
  from assms d m mum obtain pc ml where pc: "percent_of env mu mt = Inr pc"
    and ml: "usage_line env ''  - Memory: '' mu mt pc = Inr ml"
    and b: "b ! 5 = ml" "length b = 6"
    by (auto simp: Let_def bindE_Inr_iff)
  from usage_line_shows [OF pc ml] d m mum b show ?thesis by auto
qed

lemma storage_block_shows:
  assumes "storage_block env store = Inr b"
  shows "\<exists>d. store = PDict d \<and> length b = 5
     \<and> shows_usage env ''  - Usage: '' (dict_get d ''used'' (PInt 0)) (dict_get d ''total'' (PInt 0)) (b ! 4)"
proof -
  from assms obtain d where d: "store = PDict d"
    by (cases store) auto
  from assms d obtain pc ul where
    pc: "percent_of env (dict_get d ''used'' (PInt 0)) (dict_get d ''total'' (PInt 0)) = Inr pc"
    and ul: "usage_line env ''  - Usage: '' (dict_get d ''used'' (PInt 0)) (dict_get d ''total'' (PInt 0)) pc
             = Inr ul"
    and b: "b ! 4 = ul" "length b = 5"
    by (auto simp: Let_def bindE_Inr_iff)
  from usage_line_shows [OF pc ul] d b show ?thesis by auto
qed

lemma zfs_pool_block_shows:
  assumes "zfs_pool_block env pool = Inr b"
  shows "\<exists>d. pool = PDict d
     \<and> shows_used env ''  - Used: '' (dict_get d ''alloc'' (PInt 0)) (dict_get d ''size'' (PInt 0)) (b ! 4)"
  using assms
  by (cases pool)
     (auto simp: Let_def bindE_Inr_iff shows_used_def percent_text_def split: sum.splits)

lemma usage_block_shows:
  assumes "usage_block env store = Inr b"
  shows "\<exists>d. store = PDict d
     \<and> shows_used env ''  Used: '' (dict_get d ''used'' (PInt 0)) (dict_get d ''total'' (PInt 0)) (b ! 3)"
  using assms
  by (cases store)
     (auto simp: Let_def bindE_Inr_iff shows_used_def percent_text_def split: sum.splits)

lemma percent_guard:
  "not_positive whole \<Longrightarrow> percent_of env part whole = Inr (PInt 0)"
  by (cases whole rule: not_positive.cases) (simp_all add: percent_of_def)

lemma percent_text_guard:
  "not_positive whole \<Longrightarrow> percent_text env part whole = Inr ''0.0''"
  by (simp add: percent_text_def percent_guard fixed_zero)

lemma percent_text_positive:
  "py_gt0 whole = Inr True \<Longrightarrow>
   percent_text env part whole
     = bindE (py_truediv env part whole) (\<lambda>q. Inr (float_fixed 1 (times100 env q)))"
  by (cases "py_truediv env part whole") (simp_all add: percent_text_def percent_of_def)

lemma percent_text_finite:
  assumes "0 \<le> a" and "0 < b"
    and "0 \<le> round_double env (of_int a / of_int b)"
    and "round_double env (of_int a / of_int b) \<le> max_double"
    and "round_double env (round_double env (of_int a / of_int b) * 100) \<le> max_double"
  shows "percent_text env (PInt a) (PInt b)
     = Inr (fixed 1 (round_double env (round_double env (of_int a / of_int b) * 100)))"
proof -
  let ?r = "round_double env (of_int a / of_int b)"
  from assms(1,2) have ab: "\<bar>a\<bar> = a" "\<bar>b\<bar> = b" "\<not> a < 0" "\<not> b < 0" "b \<noteq> 0"
    by simp_all
  from assms(4) have "int_truediv env a b = Inr (Fin ?r)"
    by (auto simp: int_truediv_def Let_def ab)
  moreover from assms(3) have "\<bar>?r\<bar> = ?r" "\<not> ?r < 0" by simp_all
  then have "float_fixed 1 (times100 env (Fin ?r)) = fixed 1 (round_double env (?r * 100))"
    using assms(5) by (auto simp: mk_float_def Let_def)
  ultimately show ?thesis
    using assms(2) by (simp add: percent_text_def percent_of_def py_truediv_def)
qed

lemma tenth_near: "\<bar>of_int (round_half_even (\<bar>x\<bar> * 10 ^ 1)) / 10 ^ 1 - \<bar>x\<bar>\<bar> \<le> 1 / 20"
  using round_half_even_near [of "\<bar>x\<bar> * 10"] by (simp add: field_simps)

lemma node_list_shows:
  assumes "node_list env items = Inr text"
  shows "\<exists>bs. text = join_lines ((RESOURCES env ''node'' @ '' Proxmox Nodes'') # concat bs)
     \<and> list_all2
          (\<lambda>node b. \<exists>d m. node = PDict d \<and> dict_get d ''memory'' (PDict []) = PDict m
             \<and> shows_usage env ''  - Memory: '' (dict_get m ''used'' (PInt 0))
                  (dict_get m ''total'' (PInt 0)) (b ! 5)
             \<and> (if py_truthy (dict_get d ''disk'' (PDict []))
                 then \<exists>k. dict_get d ''disk'' (PDict []) = PDict k \<and> length b = 7
                        \<and> shows_usage env ''  - Disk: '' (dict_get k ''used'' (PInt 0))
                             (dict_get k ''total'' (PInt 0)) (b ! 6)
                 else length b = 6))
          items bs"
proof -
  from assms obtain body where b: "blocks (node_block env) items = Inr body"
    and t: "text = join_lines ((RESOURCES env ''node'' @ '' Proxmox Nodes'') # body)"
    by (auto simp: node_list_def bindE_Inr_iff)
  from blocks_Inr [OF b] obtain bs where bs: "list_all2 (\<lambda>x b. node_block env x = Inr b) items bs"
    and body: "body = concat bs"
    by blast
  from bs have "list_all2
          (\<lambda>node b. \<exists>d m. node = PDict d \<and> dict_get d ''memory'' (PDict []) = PDict m
             \<and> shows_usage env ''  - Memory: '' (dict_get m ''used'' (PInt 0))
                  (dict_get m ''total'' (PInt 0)) (b ! 5)
             \<and> (if py_truthy (dict_get d ''disk'' (PDict []))
                 then \<exists>k. dict_get d ''disk'' (PDict []) = PDict k \<and> length b = 7
                        \<and> shows_usage env ''  - Disk: '' (dict_get k ''used'' (PInt 0))
                             (dict_get k ''total'' (PInt 0)) (b ! 6)
                 else length b = 6))
          items bs"
    by (rule list_all2_mono) (rule node_block_shows)
  with t body show ?thesis by blast
qed

lemma instance_list_shows:
  assumes "blocks (instance_block env kind) items = Inr body"
  shows "\<exists>bs. body = concat bs
     \<and> list_all2
          (\<lambda>vm b. \<exists>d m. vm = PDict d \<and> dict_get d ''memory'' (PDict []) = PDict m \<and> length b = 6
             \<and> shows_usage env ''  - Memory: '' (dict_get m ''used'' (PInt 0))
                  (dict_get m ''total'' (PInt 0)) (b ! 5))
          items bs"
proof -
  from blocks_Inr [OF assms] obtain bs where
    bs: "list_all2 (\<lambda>x b. instance_block env kind x = Inr b) items bs"
    and body: "body = concat bs"
    by blast
  from bs have "list_all2
          (\<lambda>vm b. \<exists>d m. vm = PDict d \<and> dict_get d ''memory'' (PDict []) = PDict m \<and> length b = 6
             \<and> shows_usage env ''  - Memory: '' (dict_get m ''used'' (PInt 0))
                  (dict_get m ''total'' (PInt 0)) (b ! 5))
          items bs"
    by (rule list_all2_mono) (rule instance_block_shows)
  with body show ?thesis by blast
qed

lemma storage_list_shows:
  assumes "storage_list env items = Inr text"
  shows "\<exists>bs. text = join_lines ((RESOURCES env ''storage'' @ '' Storage Pools'') # concat bs)
     \<and> list_all2
          (\<lambda>store b. \<exists>d. store = PDict d \<and> length b = 5
             \<and> shows_usage env ''  - Usage: '' (dict_get d ''used'' (PInt 0))
                  (dict_get d ''total'' (PInt 0)) (b ! 4))
          items bs"
proof -
  from assms obtain body where b: "blocks (storage_block env) items = Inr body"
    and t: "text = join_lines ((RESOURCES env ''storage'' @ '' Storage Pools'') # body)"
    by (auto simp: storage_list_def bindE_Inr_iff)
  from blocks_Inr [OF b] obtain bs where bs: "list_all2 (\<lambda>x b. storage_block env x = Inr b) items bs"
    and body: "body = concat bs"
    by blast
  from bs have "list_all2
          (\<lambda>store b. \<exists>d. store = PDict d \<and> length b = 5
             \<and> shows_usage env ''  - Usage: '' (dict_get d ''used'' (PInt 0))
                  (dict_get d ''total'' (PInt 0)) (b ! 4))
          items bs"
    by (rule list_all2_mono) (rule storage_block_shows)
  with t body show ?thesis by blast
qed

lemma zfs_pool_list_shows:
  assumes "zfs_pool_list env items = Inr text" and "items \<noteq> []"
  shows "\<exists>bs. text = join_lines ((RESOURCES env ''zfs'' @ '' ZFS Storage Pools'') # concat bs)
     \<and> list_all2
          (\<lambda>pool b. \<exists>d. pool = PDict d
             \<and> shows_used env ''  - Used: '' (dict_get d ''alloc'' (PInt 0))
                  (dict_get d ''size'' (PInt 0)) (b ! 4))
          items bs"
proof -
  from assms obtain body where b: "blocks (zfs_pool_block env) items = Inr body"
    and t: "text = join_lines ((RESOURCES env ''zfs'' @ '' ZFS Storage Pools'') # body)"
    by (auto simp: zfs_pool_list_def bindE_Inr_iff)
  from blocks_Inr [OF b] obtain bs where bs: "list_all2 (\<lambda>x b. zfs_pool_block env x = Inr b) items bs"
    and body: "body = concat bs"
    by blast
  from bs have "list_all2
          (\<lambda>pool b. \<exists>d. pool = PDict d
             \<and> shows_used env ''  - Used: '' (dict_get d ''alloc'' (PInt 0))
                  (dict_get d ''size'' (PInt 0)) (b ! 4))
          items bs"
    by (rule list_all2_mono) (rule zfs_pool_block_shows)
  with t body show ?thesis by blast
qed

lemma storage_usage_shows:
  assumes "storage_usage env items = Inr text" and "items \<noteq> []"
  shows "\<exists>bs. text = join_lines ((RESOURCES env ''storage'' @ '' Storage Usage Breakdown'') # concat bs)
     \<and> list_all2
          (\<lambda>store b. \<exists>d. store = PDict d
             \<and> shows_used env ''  Used: '' (dict_get d ''used'' (PInt 0))
                  (dict_get d ''total'' (PInt 0)) (b ! 3))
          items bs"
proof -
  from assms obtain body where b: "blocks (usage_block env) items = Inr body"
    and t: "text = join_lines ((RESOURCES env ''storage'' @ '' Storage Usage Breakdown'') # body)"
    by (auto simp: storage_usage_def bindE_Inr_iff)
  from blocks_Inr [OF b] obtain bs where bs: "list_all2 (\<lambda>x b. usage_block env x = Inr b) items bs"
    and body: "body = concat bs"
    by blast
  from bs have "list_all2
          (\<lambda>store b. \<exists>d. store = PDict d
             \<and> shows_used env ''  Used: '' (dict_get d ''used'' (PInt 0))
                  (dict_get d ''total'' (PInt 0)) (b ! 3))
          items bs"
    by (rule list_all2_mono) (rule usage_block_shows)
  with t body show ?thesis by blast
qed

lemma upper_online:
  "ascii_upper CHR ''o'' = CHR ''O''" "ascii_upper CHR ''n'' = CHR ''N''"
  "ascii_upper CHR ''l'' = CHR ''L''" "ascii_upper CHR ''i'' = CHR ''I''"
  "ascii_upper CHR ''e'' = CHR ''E''"
  by code_simp+

section \<open>The claims about the pool-detail normaliser\<close>

text \<open>
  Claim C1. Whatever the shape of the response to the single-pool query (absent, text,
  dict, or anything else), \<^verbatim>\<open>get_zfs_pool_status\<close> builds a record in which name, node,
  health, state, scan, action, status, errors and children are all set, with the defaults
  of its branch, and the outcome of the operation is decided by the result wrapper alone:
  the dispatch on the shape never raises.
\<close>

theorem pool_detail_shapes:
  "(let r = pool_detail_result env node pool_name v in
      snd (get_zfs_pool_status tb (cl\<lparr>zfs_pool_get := \<lambda>n p. Inr v\<rparr>) env node pool_name)
        = (case format_response tb (PDict r) ''zfs_pool_detail'' of
             Inl e \<Rightarrow> Inl (Failure (''get ZFS pool status for '' @ pool_name) e)
           | Inr c \<Rightarrow> Inr c)
      \<and> take 9 (map fst r)
          = [''name'', ''node'', ''health'', ''state'', ''scan'', ''action'', ''status'',
             ''errors'', ''children'']
      \<and> distinct (map fst r)
      \<and> map_of r ''name'' = Some (PStr pool_name)
      \<and> map_of r ''node'' = Some (PStr node)
      \<and> map_of r ''health''
          = Some (case v of PNone \<Rightarrow> PStr ''UNKNOWN'' | PStr s \<Rightarrow> PStr (scan_health s)
                  | PDict d \<Rightarrow> dict_get d ''health'' (PStr ''UNKNOWN'') | _ \<Rightarrow> PStr ''UNKNOWN'')
      \<and> map_of r ''state''
          = Some (case v of PNone \<Rightarrow> PStr ''API returned no data'' | PStr s \<Rightarrow> PStr ''See raw output''
                  | PDict d \<Rightarrow> dict_get d ''state'' (PStr ''UNKNOWN'')
                  | _ \<Rightarrow> PStr (''Unexpected type: '' @ type_name v))
      \<and> map_of r ''scan'' = Some (case v of PDict d \<Rightarrow> dict_get d ''scan'' (PDict []) | _ \<Rightarrow> PDict [])
      \<and> map_of r ''action'' = Some (case v of PDict d \<Rightarrow> dict_get d ''action'' PNone | _ \<Rightarrow> PNone)
      \<and> map_of r ''status'' = Some (case v of PDict d \<Rightarrow> dict_get d ''status'' PNone | _ \<Rightarrow> PNone)
      \<and> map_of r ''errors''
          = Some (case v of PNone \<Rightarrow> PStr ''No data returned from API'' | PStr s \<Rightarrow> PStr ''Check raw output''
                  | PDict d \<Rightarrow> dict_get d ''errors'' (PStr ''No known data errors'')
                  | _ \<Rightarrow> PStr (''API returned unexpected type: '' @ type_name v))
      \<and> map_of r ''children'' = Some (case v of PDict d \<Rightarrow> dict_get d ''children'' (PList []) | _ \<Rightarrow> PList [])
      \<and> map_of r ''raw_status''
          = (case v of PNone \<Rightarrow> None | PStr s \<Rightarrow> Some (PStr s) | PDict d \<Rightarrow> None
             | _ \<Rightarrow> Some (PStr (py_str env v))))"
  by (cases v) (simp_all add: Let_def get_zfs_pool_status_def handle_error_def split: sum.splits)

theorem pool_detail_shapes_witness:
  "pool_detail_result sample_env ''pve1'' ''tank'' (PList [PInt 1])
     = [(''name'', PStr ''tank''), (''node'', PStr ''pve1''), (''health'', PStr ''UNKNOWN''),
        (''state'', PStr ''Unexpected type: list''), (''scan'', PDict []), (''action'', PNone),
        (''status'', PNone), (''errors'', PStr ''API returned unexpected type: list''),
        (''children'', PList []), (''raw_status'', PStr ''<list>'')]
   \<and> map_of (pool_detail_result sample_env ''pve1'' ''tank'' (PList [PInt 1])) ''state''
     = Some (PStr ''Unexpected type: list'')"
  using pool_detail_shapes [of sample_env "''pve1''" "''tank''" "PList [PInt 1]" sample_tool sample_client]
  by (simp add: Let_def sample_env_def)

text \<open>
  Claim C2. For a text response the health is found by testing for the substrings
  ONLINE, DEGRADED, FAULTED in this order, the first that occurs anywhere in the text
  wins, and a text with none of them has health UNKNOWN.
\<close>

theorem scan_health_priority:
  "scan_health s =
     (if sublist ''ONLINE'' s then ''ONLINE''
      else if sublist ''DEGRADED'' s then ''DEGRADED''
      else if sublist ''FAULTED'' s then ''FAULTED''
      else ''UNKNOWN'')
   \<and> map_of (pool_detail_result env node pool_name (PStr s)) ''health'' = Some (PStr (scan_health s))"
  by (simp add: scan_health_def str_contains_sublist)

theorem scan_health_priority_witness:
  "scan_health ''vdev FAULTED, pool DEGRADED'' = ''DEGRADED''
   \<and> scan_health ''pool DEGRADED, vdev FAULTED'' = ''DEGRADED''
   \<and> scan_health ''no such pool'' = ''UNKNOWN''"
  using scan_health_priority [of "''vdev FAULTED, pool DEGRADED''" sample_env "''n''" "''p''"]
  by (simp add: scan_health_def)

section \<open>The claims about the renderers\<close>

text \<open>
  Claim C3, as stated, lets the storage-usage renderer print its title line on an empty
  input. It returns a "none found" line of its own.
\<close>

theorem storage_usage_empty_counterexample:
  "storage_usage sample_env [] = Inr ''[storage] No storage data found''
   \<and> storage_usage sample_env [] \<noteq> Inr (RESOURCES sample_env ''storage'' @ '' Storage Usage Breakdown'')"
  by (simp add: storage_usage_def sample_env_def)

text \<open>
  Claim C3, amended. On an empty input the container, disk, pool-list, dataset and
  storage-usage renderers return exactly their one "none found" message behind the
  resource icon; the node, VM and storage-pool renderers return just their title line.
\<close>

theorem empty_collections:
  "container_list env [] = Inr (RESOURCES env ''container'' @ '' No containers found'')
   \<and> disk_list env [] = Inr (RESOURCES env ''disk'' @ '' No disks found'')
   \<and> zfs_pool_list env [] = Inr (RESOURCES env ''zfs'' @ '' No ZFS pools found'')
   \<and> zfs_datasets env [] = Inr (RESOURCES env ''zfs'' @ '' No ZFS datasets found'')
   \<and> storage_usage env [] = Inr (RESOURCES env ''storage'' @ '' No storage data found'')
   \<and> node_list env [] = Inr (RESOURCES env ''node'' @ '' Proxmox Nodes'')
   \<and> vm_list env [] = Inr (RESOURCES env ''vm'' @ '' Virtual Machines'')
   \<and> storage_list env [] = Inr (RESOURCES env ''storage'' @ '' Storage Pools'')"
  by (simp add: container_list_def disk_list_def zfs_pool_list_def zfs_datasets_def
      storage_usage_def node_list_def vm_list_def storage_list_def bindE_def)

theorem empty_collections_witness:
  "container_list sample_env [] = Inr ''[container] No containers found''
   \<and> node_list sample_env [] = Inr ''[node] Proxmox Nodes''"
  using empty_collections [of sample_env] by (simp add: sample_env_def)

text \<open>
  Claim C5. The percentage a renderer shows for a pair is the value of the guarded
  expression. When the whole is a number that is not positive, the value is the integer
  0 whatever the part is (nothing is divided, nothing raises) and the text is 0.0. When
  the whole is positive, the text is that of the quotient times 100 in float arithmetic
  under the format \<^verbatim>\<open>.1f\<close>; for byte counts within the range of a double this is a
  finite value shown with one decimal, the nearest tenth. Every renderer that computes a
  percentage shows this text: the node list and the node status for memory and disk, the
  VM and container lists for memory, the storage-pool list, the pool list and the
  storage-usage breakdown for their usage.
\<close>

theorem percentage_guard:
  "(not_positive whole \<longrightarrow>
      percent_of env part whole = Inr (PInt 0) \<and> percent_text env part whole = Inr ''0.0'')
   \<and> (py_gt0 whole = Inr True \<longrightarrow>
        percent_text env part whole
          = bindE (py_truediv env part whole) (\<lambda>q. Inr (float_fixed 1 (times100 env q))))
   \<and> (0 \<le> a \<and> 0 < b
        \<and> 0 \<le> round_double env (of_int a / of_int b)
        \<and> round_double env (of_int a / of_int b) \<le> max_double
        \<and> round_double env (round_double env (of_int a / of_int b) * 100) \<le> max_double \<longrightarrow>
        percent_text env (PInt a) (PInt b)
          = Inr (fixed 1 (round_double env (round_double env (of_int a / of_int b) * 100))))
   \<and> \<bar>of_int (round_half_even (\<bar>x\<bar> * 10 ^ 1)) / 10 ^ 1 - \<bar>x\<bar>\<bar> \<le> 1 / 20
   \<and> (node_list env items = Inr text \<longrightarrow>
        (\<exists>bs. text = join_lines ((RESOURCES env ''node'' @ '' Proxmox Nodes'') # concat bs)
           \<and> list_all2
                (\<lambda>node b. \<exists>d m. node = PDict d \<and> dict_get d ''memory'' (PDict []) = PDict m
                   \<and> shows_usage env ''  - Memory: '' (dict_get m ''used'' (PInt 0))
                        (dict_get m ''total'' (PInt 0)) (b ! 5)
                   \<and> (if py_truthy (dict_get d ''disk'' (PDict []))
                       then \<exists>k. dict_get d ''disk'' (PDict []) = PDict k \<and> length b = 7
                              \<and> shows_usage env ''  - Disk: '' (dict_get k ''used'' (PInt 0))
                                   (dict_get k ''total'' (PInt 0)) (b ! 6)
                       else length b = 6))
                items bs))
   \<and> (node_status env node status = Inr text \<longrightarrow>
        (\<exists>ls m. text = join_lines ls \<and> dict_get status ''memory'' (PDict []) = PDict m
           \<and> shows_usage env ''  - Memory: '' (dict_get m ''used'' (PInt 0))
                (dict_get m ''total'' (PInt 0)) (ls ! 4)
           \<and> (if py_truthy (dict_get status ''disk'' (PDict []))
               then \<exists>k. dict_get status ''disk'' (PDict []) = PDict k \<and> length ls = 6
                      \<and> shows_usage env ''  - Disk: '' (dict_get k ''used'' (PInt 0))
                           (dict_get k ''total'' (PInt 0)) (ls ! 5)
               else length ls = 5)))
   \<and> (vm_list env items = Inr text \<longrightarrow>
        (\<exists>bs. text = join_lines ((RESOURCES env ''vm'' @ '' Virtual Machines'') # concat bs)
           \<and> list_all2
                (\<lambda>vm b. \<exists>d m. vm = PDict d \<and> dict_get d ''memory'' (PDict []) = PDict m
                   \<and> length b = 6
                   \<and> shows_usage env ''  - Memory: '' (dict_get m ''used'' (PInt 0))
                        (dict_get m ''total'' (PInt 0)) (b ! 5))
                items bs))
   \<and> (container_list env items = Inr text \<and> items \<noteq> [] \<longrightarrow>
        (\<exists>bs. text = join_lines ((RESOURCES env ''container'' @ '' Containers'') # concat bs)
           \<and> list_all2
                (\<lambda>vm b. \<exists>d m. vm = PDict d \<and> dict_get d ''memory'' (PDict []) = PDict m
                   \<and> length b = 6
                   \<and> shows_usage env ''  - Memory: '' (dict_get m ''used'' (PInt 0))
                        (dict_get m ''total'' (PInt 0)) (b ! 5))
                items bs))
   \<and> (storage_list env items = Inr text \<longrightarrow>
        (\<exists>bs. text = join_lines ((RESOURCES env ''storage'' @ '' Storage Pools'') # concat bs)
           \<and> list_all2
                (\<lambda>store b. \<exists>d. store = PDict d \<and> length b = 5
                   \<and> shows_usage env ''  - Usage: '' (dict_get d ''used'' (PInt 0))
                        (dict_get d ''total'' (PInt 0)) (b ! 4))
                items bs))
   \<and> (zfs_pool_list env items = Inr text \<and> items \<noteq> [] \<longrightarrow>
        (\<exists>bs. text = join_lines ((RESOURCES env ''zfs'' @ '' ZFS Storage Pools'') # concat bs)
           \<and> list_all2
                (\<lambda>pool b. \<exists>d. pool = PDict d
                   \<and> shows_used env ''  - Used: '' (dict_get d ''alloc'' (PInt 0))
                        (dict_get d ''size'' (PInt 0)) (b ! 4))
                items bs))
   \<and> (storage_usage env items = Inr text \<and> items \<noteq> [] \<longrightarrow>
        (\<exists>bs. text = join_lines ((RESOURCES env ''storage'' @ '' Storage Usage Breakdown'') # concat bs)
           \<and> list_all2
                (\<lambda>store b. \<exists>d. store = PDict d
                   \<and> shows_used env ''  Used: '' (dict_get d ''used'' (PInt 0))
                        (dict_get d ''total'' (PInt 0)) (b ! 3))
                items bs))"
proof (intro conjI impI)
  assume "not_positive whole"
  then show "percent_of env part whole = Inr (PInt 0)" by (rule percent_guard)
next
  assume "not_positive whole"
  then show "percent_text env part whole = Inr ''0.0''" by (rule percent_text_guard)
next
  assume "py_gt0 whole = Inr True"
  then show "percent_text env part whole
          = bindE (py_truediv env part whole) (\<lambda>q. Inr (float_fixed 1 (times100 env q)))"
    by (rule percent_text_positive)
next
  assume "0 \<le> a \<and> 0 < b
        \<and> 0 \<le> round_double env (of_int a / of_int b)
        \<and> round_double env (of_int a / of_int b) \<le> max_double
        \<and> round_double env (round_double env (of_int a / of_int b) * 100) \<le> max_double"
  then show "percent_text env (PInt a) (PInt b)
          = Inr (fixed 1 (round_double env (round_double env (of_int a / of_int b) * 100)))"
    by (intro percent_text_finite) simp_all
next
  show "\<bar>of_int (round_half_even (\<bar>x\<bar> * 10 ^ 1)) / 10 ^ 1 - \<bar>x\<bar>\<bar> \<le> 1 / 20"
    by (rule tenth_near)
next
  assume "node_list env items = Inr text"
  then show "\<exists>bs. text = join_lines ((RESOURCES env ''node'' @ '' Proxmox Nodes'') # concat bs)
           \<and> list_all2
                (\<lambda>node b. \<exists>d m. node = PDict d \<and> dict_get d ''memory'' (PDict []) = PDict m
                   \<and> shows_usage env ''  - Memory: '' (dict_get m ''used'' (PInt 0))
                        (dict_get m ''total'' (PInt 0)) (b ! 5)
                   \<and> (if py_truthy (dict_get d ''disk'' (PDict []))
                       then \<exists>k. dict_get d ''disk'' (PDict []) = PDict k \<and> length b = 7
                              \<and> shows_usage env ''  - Disk: '' (dict_get k ''used'' (PInt 0))
                                   (dict_get k ''total'' (PInt 0)) (b ! 6)
                       else length b = 6))
                items bs"
    by (rule node_list_shows)
next
  assume "node_status env node status = Inr text"
  then show "\<exists>ls m. text = join_lines ls \<and> dict_get status ''memory'' (PDict []) = PDict m
           \<and> shows_usage env ''  - Memory: '' (dict_get m ''used'' (PInt 0))
                (dict_get m ''total'' (PInt 0)) (ls ! 4)
           \<and> (if py_truthy (dict_get status ''disk'' (PDict []))
               then \<exists>k. dict_get status ''disk'' (PDict []) = PDict k \<and> length ls = 6
                      \<and> shows_usage env ''  - Disk: '' (dict_get k ''used'' (PInt 0))
                           (dict_get k ''total'' (PInt 0)) (ls ! 5)
               else length ls = 5)"
    by (rule node_status_shows)
next
  assume "vm_list env items = Inr text"
  then obtain body where b: "blocks (instance_block env ''vm'') items = Inr body"
    and t: "text = join_lines ((RESOURCES env ''vm'' @ '' Virtual Machines'') # body)"
    by (auto simp: vm_list_def bindE_Inr_iff)
  from instance_list_shows [OF b] t
  show "\<exists>bs. text = join_lines ((RESOURCES env ''vm'' @ '' Virtual Machines'') # concat bs)
           \<and> list_all2
                (\<lambda>vm b. \<exists>d m. vm = PDict d \<and> dict_get d ''memory'' (PDict []) = PDict m
                   \<and> length b = 6
                   \<and> shows_usage env ''  - Memory: '' (dict_get m ''used'' (PInt 0))
                        (dict_get m ''total'' (PInt 0)) (b ! 5))
                items bs"
    by blast
next
  assume "container_list env items = Inr text \<and> items \<noteq> []"
  then obtain body where b: "blocks (instance_block env ''container'') items = Inr body"
    and t: "text = join_lines ((RESOURCES env ''container'' @ '' Containers'') # body)"
    by (auto simp: container_list_def bindE_Inr_iff)
  from instance_list_shows [OF b] t
  show "\<exists>bs. text = join_lines ((RESOURCES env ''container'' @ '' Containers'') # concat bs)
           \<and> list_all2
                (\<lambda>vm b. \<exists>d m. vm = PDict d \<and> dict_get d ''memory'' (PDict []) = PDict m
                   \<and> length b = 6
                   \<and> shows_usage env ''  - Memory: '' (dict_get m ''used'' (PInt 0))
                        (dict_get m ''total'' (PInt 0)) (b ! 5))
                items bs"
    by blast
next
  assume "storage_list env items = Inr text"
  then show "\<exists>bs. text = join_lines ((RESOURCES env ''storage'' @ '' Storage Pools'') # concat bs)
           \<and> list_all2
                (\<lambda>store b. \<exists>d. store = PDict d \<and> length b = 5
                   \<and> shows_usage env ''  - Usage: '' (dict_get d ''used'' (PInt 0))
                        (dict_get d ''total'' (PInt 0)) (b ! 4))
                items bs"
    by (rule storage_list_shows)
next
  assume "zfs_pool_list env items = Inr text \<and> items \<noteq> []"
  then show "\<exists>bs. text = join_lines ((RESOURCES env ''zfs'' @ '' ZFS Storage Pools'') # concat bs)
           \<and> list_all2
                (\<lambda>pool b. \<exists>d. pool = PDict d
                   \<and> shows_used env ''  - Used: '' (dict_get d ''alloc'' (PInt 0))
                        (dict_get d ''size'' (PInt 0)) (b ! 4))
                items bs"
    by (intro zfs_pool_list_shows) simp_all
next
  assume "storage_usage env items = Inr text \<and> items \<noteq> []"
  then show "\<exists>bs. text = join_lines ((RESOURCES env ''storage'' @ '' Storage Usage Breakdown'') # concat bs)
           \<and> list_all2
                (\<lambda>store b. \<exists>d. store = PDict d
                   \<and> shows_used env ''  Used: '' (dict_get d ''used'' (PInt 0))
                        (dict_get d ''total'' (PInt 0)) (b ! 3))
                items bs"
    by (intro storage_usage_shows) simp_all
qed

theorem percentage_guard_witness:
  "percent_text sample_env (PInt 1000) (PInt 0) = Inr ''0.0''
   \<and> percent_text sample_env (PInt 1000) (PInt 4000) = Inr ''25.0''
   \<and> node_list sample_env
        [PDict [(''node'', PStr ''pve1''), (''status'', PStr ''online''), (''uptime'', PInt 3600),
                (''maxcpu'', PInt 8),
                (''memory'', PDict [(''used'', PInt 1000), (''total'', PInt 4000)]),
                (''disk'', PDict [(''used'', PInt 5), (''total'', PInt 0)])]]
      = Inr (join_lines
          [''[node] Proxmox Nodes'',
           [],
           ''[node] pve1'',
           ''  - Status: ONLINE'',
           ''  - Uptime: 3600s'',
           ''  - CPU Cores: 8'',
           ''  - Memory: 1000 B / 4000 B (25.0%)'',
           ''  - Disk: 5 B / 0 B (0.0%)''])"
proof -
  have big: "25 < max_double"
    unfolding max_double_def by simp
  then have m: "\<not> max_double < 25" "\<not> max_double < 1 / 4" "\<not> max_double * 4 < 1"
    "1 / 4 \<le> max_double" "25 \<le> max_double" "1 \<le> max_double * 4"
    by linarith+
  have g: "percent_text sample_env (PInt 1000) (PInt 0) = Inr ''0.0''"
    using percentage_guard [of "PInt 0" sample_env "PInt 1000"] by simp
  have f: "percent_text sample_env (PInt 1000) (PInt 4000) = Inr ''25.0''"
    using percentage_guard [of "PInt 0" sample_env "PInt 0" 1000 4000] m
    by (simp add: sample_env_def fixed_25)
  have n: "node_list sample_env
        [PDict [(''node'', PStr ''pve1''), (''status'', PStr ''online''), (''uptime'', PInt 3600),
                (''maxcpu'', PInt 8),
                (''memory'', PDict [(''used'', PInt 1000), (''total'', PInt 4000)]),
                (''disk'', PDict [(''used'', PInt 5), (''total'', PInt 0)])]]
      = Inr (join_lines
          [''[node] Proxmox Nodes'',
           [],
           ''[node] pve1'',
           ''  - Status: ONLINE'',
           ''  - Uptime: 3600s'',
           ''  - CPU Cores: 8'',
           ''  - Memory: 1000 B / 4000 B (25.0%)'',
           ''  - Disk: 5 B / 0 B (0.0%)''])"
    by (simp add: node_list_def Let_def sample_env_def sample_bytes_def sample_uptime_def
        dict_get_def usage_line_def percent_of_def py_truediv_def int_truediv_def mk_float_def m
        fixed_zero fixed_25 upper_online show_int_def show_nat.simps digit_char_def)
  from g f n show ?thesis by simp
qed

text \<open>
  Claim C10. A rendering of a non-empty list of disks is the title followed by one block
  for each disk, and these are the lines of the text when no rendered field holds a line
  break. Each block has its seven fixed lines, none of which is a wear line, followed by
  the "Wear Level" line exactly when the type is the string \<open>ssd\<close> and the wearout value is
  not the sentinel \<open>N/A\<close>: a disk of any other type never gets it, whatever its wearout
  value.
\<close>

theorem wear_level_line:
  assumes "disk_list env disks = Inr text" and "disks \<noteq> []"
  shows "\<exists>bs. text = join_lines ((RESOURCES env ''disk'' @ '' Disks'') # concat bs)
     \<and> (list_all (\<lambda>l. newline \<notin> set l) ((RESOURCES env ''disk'' @ '' Disks'') # concat bs)
          \<longrightarrow> split_on newline text = (RESOURCES env ''disk'' @ '' Disks'') # concat bs)
     \<and> list_all2
          (\<lambda>disk b. \<exists>d. disk = PDict d
             \<and> length (take 7 b) = 7
             \<and> list_all (\<lambda>l. \<not> starts_with ''     - Wear Level: '' l) (take 7 b)
             \<and> drop 7 b =
                 (if dict_get d ''type'' (PStr ''unknown'') = PStr ''ssd''
                     \<and> dict_get d ''wearout'' (PStr ''N/A'') \<noteq> PStr ''N/A''
                  then [''     - Wear Level: '' @ py_str env (dict_get d ''wearout'' (PStr ''N/A''))
                        @ ''%'']
                  else []))
          disks bs"
proof -
  from assms obtain body where b: "blocks (disk_block env) disks = Inr body"
    and t: "text = join_lines ((RESOURCES env ''disk'' @ '' Disks'') # body)"
    by (auto simp: disk_list_def bindE_Inr_iff)
  from b obtain bs where bs: "list_all2 (\<lambda>x b. disk_block env x = Inr b) disks bs"
    and body: "body = concat bs"
    by (auto dest: blocks_Inr)
  have lines: "split_on newline text = (RESOURCES env ''disk'' @ '' Disks'') # concat bs"
    if "list_all (\<lambda>l. newline \<notin> set l) ((RESOURCES env ''disk'' @ '' Disks'') # concat bs)"
    unfolding t body using that by (intro split_join_lines) simp_all
  from bs have "list_all2
          (\<lambda>disk b. \<exists>d. disk = PDict d
             \<and> length (take 7 b) = 7
             \<and> list_all (\<lambda>l. \<not> starts_with ''     - Wear Level: '' l) (take 7 b)
             \<and> drop 7 b =
                 (if dict_get d ''type'' (PStr ''unknown'') = PStr ''ssd''
                     \<and> dict_get d ''wearout'' (PStr ''N/A'') \<noteq> PStr ''N/A''
                  then [''     - Wear Level: '' @ py_str env (dict_get d ''wearout'' (PStr ''N/A''))
                        @ ''%'']
                  else []))
          disks bs"
    by (rule list_all2_mono) (rule disk_block_lines)
  with t body lines show ?thesis by blast
qed

theorem wear_level_line_witness:
  "disk_list sample_env
     [PDict [(''devpath'', PStr ''/dev/sda''), (''type'', PStr ''hdd''), (''wearout'', PInt 12)],
      PDict [(''devpath'', PStr ''/dev/nvme0n1''), (''type'', PStr ''ssd''), (''wearout'', PInt 12)]]
   = Inr (join_lines
       [''[disk] Disks'',
        [],
        ''  '' @ hdd_icon @ '' /dev/sda'',
        ''     - Size: 0 B'',
        ''     - Model: N/A'',
        ''     - Serial: N/A'',
        ''     - Health: '' @ yellow_icon @ '' UNKNOWN'',
        ''     - Usage: unused'',
        [],
        ''  '' @ ssd_icon @ '' /dev/nvme0n1'',
        ''     - Size: 0 B'',
        ''     - Model: N/A'',
        ''     - Serial: N/A'',
        ''     - Health: '' @ yellow_icon @ '' UNKNOWN'',
        ''     - Usage: unused'',
        ''     - Wear Level: 12%''])"
proof -
  let ?disks = "[PDict [(''devpath'', PStr ''/dev/sda''), (''type'', PStr ''hdd''), (''wearout'', PInt 12)],
      PDict [(''devpath'', PStr ''/dev/nvme0n1''), (''type'', PStr ''ssd''), (''wearout'', PInt 12)]]"
  have r: "disk_list sample_env ?disks
   = Inr (join_lines
       [''[disk] Disks'',
        [],
        ''  '' @ hdd_icon @ '' /dev/sda'',
        ''     - Size: 0 B'',
        ''     - Model: N/A'',
        ''     - Serial: N/A'',
        ''     - Health: '' @ yellow_icon @ '' UNKNOWN'',
        ''     - Usage: unused'',
        [],
        ''  '' @ ssd_icon @ '' /dev/nvme0n1'',
        ''     - Size: 0 B'',
        ''     - Model: N/A'',
        ''     - Serial: N/A'',
        ''     - Health: '' @ yellow_icon @ '' UNKNOWN'',
        ''     - Usage: unused'',
        ''     - Wear Level: 12%''])"
    by (simp add: disk_list_def Let_def sample_env_def sample_bytes_def dict_get_def wear_lines_def
        type_icon_def disk_health_icon_def show_int_def show_nat.simps digit_char_def)
  have ne: "?disks \<noteq> []" by simp
  from wear_level_line [OF r ne] r show ?thesis by simp
qed

text \<open>
  Claim C7, as stated, shows the dedup line whenever the value differs from 1.0. A pool
  whose dedup value is 0.0 differs from 1.0 and is listed without such a line, because
  the renderer also asks for the value to be true.
\<close>

theorem dedup_zero_counterexample:
  "dict_get [(''name'', PStr ''tank''), (''dedup'', PFloat (Fin 0))] ''dedup'' (PFloat (Fin 1)) = PFloat (Fin 0)
   \<and> PFloat (Fin 0) \<noteq> PFloat (Fin 1)
   \<and> zfs_pool_list sample_env [PDict [(''name'', PStr ''tank''), (''dedup'', PFloat (Fin 0))]]
       = Inr (join_lines
           [''[zfs] ZFS Storage Pools'',
            [],
            ''[zfs] tank (unknown)'',
            ''  - Health: '' @ red_icon @ '' UNKNOWN'',
            ''  - Size: 0 B'',
            ''  - Used: 0 B (0.0%)'',
            ''  - Free: 0 B'',
            ''  - Fragmentation: 0%''])"
  by (simp add: zfs_pool_list_def Let_def sample_env_def sample_bytes_def dict_get_def dedup_lines_def
      health_icon_def percent_of_def fixed_zero show_int_def show_nat.simps digit_char_def)

text \<open>
  Claim C7, amended. A rendering of a non-empty list of pools is the title followed by one
  block for each pool, and these are the lines of the text when no rendered field holds a
  line break. Each block has its seven fixed lines, and the dedup line follows exactly
  when the dedup value (1.0 when absent) is true in a condition (not zero, not
  \<^verbatim>\<open>None\<close>) and differs from 1.0; the line then shows the value in the format \<^verbatim>\<open>.2f\<close>
  and an \<open>x\<close>, which for a finite float is the nearest hundredth: 1.35 is shown as 1.35x
  and 1.0 is not shown.
\<close>

theorem dedup_ratio_line:
  assumes "zfs_pool_list env pools = Inr text" and "pools \<noteq> []"
  shows "\<exists>bs. text = join_lines ((RESOURCES env ''zfs'' @ '' ZFS Storage Pools'') # concat bs)
     \<and> (list_all (\<lambda>l. newline \<notin> set l) ((RESOURCES env ''zfs'' @ '' ZFS Storage Pools'') # concat bs)
          \<longrightarrow> split_on newline text = (RESOURCES env ''zfs'' @ '' ZFS Storage Pools'') # concat bs)
     \<and> list_all2
          (\<lambda>pool b. \<exists>d. pool = PDict d
             \<and> length (take 7 b) = 7
             \<and> list_all (\<lambda>l. \<not> starts_with ''  - Dedup Ratio: '' l) (take 5 (drop 2 b))
             \<and> (if py_truthy (dict_get d ''dedup'' (PFloat (Fin 1)))
                    \<and> differs_from_one (dict_get d ''dedup'' (PFloat (Fin 1)))
                 then \<exists>r. fmt_fixed env 2 (dict_get d ''dedup'' (PFloat (Fin 1))) = Inr r
                        \<and> drop 7 b = [''  - Dedup Ratio: '' @ r @ ''x'']
                 else drop 7 b = []))
          pools bs
     \<and> fmt_fixed env 2 (PFloat (Fin q)) = Inr (fixed 2 q)
     \<and> \<bar>of_int (round_half_even (\<bar>q\<bar> * 10 ^ 2)) / 10 ^ 2 - \<bar>q\<bar>\<bar> \<le> 1 / 200"
proof -
  from assms obtain body where b: "blocks (zfs_pool_block env) pools = Inr body"
    and t: "text = join_lines ((RESOURCES env ''zfs'' @ '' ZFS Storage Pools'') # body)"
    by (auto simp: zfs_pool_list_def bindE_Inr_iff)
  from b obtain bs where bs: "list_all2 (\<lambda>x b. zfs_pool_block env x = Inr b) pools bs"
    and body: "body = concat bs"
    by (auto dest: blocks_Inr)
  have lines: "split_on newline text = (RESOURCES env ''zfs'' @ '' ZFS Storage Pools'') # concat bs"
    if "list_all (\<lambda>l. newline \<notin> set l) ((RESOURCES env ''zfs'' @ '' ZFS Storage Pools'') # concat bs)"
    unfolding t body using that by (intro split_join_lines) simp_all
  from bs have blocks: "list_all2
          (\<lambda>pool b. \<exists>d. pool = PDict d
             \<and> length (take 7 b) = 7
             \<and> list_all (\<lambda>l. \<not> starts_with ''  - Dedup Ratio: '' l) (take 5 (drop 2 b))
             \<and> (if py_truthy (dict_get d ''dedup'' (PFloat (Fin 1)))
                    \<and> differs_from_one (dict_get d ''dedup'' (PFloat (Fin 1)))
                 then \<exists>r. fmt_fixed env 2 (dict_get d ''dedup'' (PFloat (Fin 1))) = Inr r
                        \<and> drop 7 b = [''  - Dedup Ratio: '' @ r @ ''x'']
                 else drop 7 b = []))
          pools bs"
    by (rule list_all2_mono) (rule zfs_pool_block_lines)
  have near: "\<bar>of_int (round_half_even (\<bar>q\<bar> * 10 ^ 2)) / 10 ^ 2 - \<bar>q\<bar>\<bar> \<le> 1 / 200"
    using round_half_even_near [of "\<bar>q\<bar> * 100"] by (simp add: field_simps)
  have fmt: "fmt_fixed env 2 (PFloat (Fin q)) = Inr (fixed 2 q)"
    by simp
  from t body have "text = join_lines ((RESOURCES env ''zfs'' @ '' ZFS Storage Pools'') # concat bs)"
    by simp
  with lines blocks fmt near show ?thesis by blast
qed

theorem dedup_ratio_line_witness:
  "zfs_pool_list sample_env
     [PDict [(''name'', PStr ''tank''), (''node'', PStr ''pve1''), (''health'', PStr ''ONLINE''),
             (''size'', PInt 4000), (''alloc'', PInt 1000), (''free'', PInt 3000),
             (''frag'', PInt 7), (''dedup'', PFloat (Fin (3039929748475085 / 2251799813685248)))],
      PDict [(''name'', PStr ''backup''), (''dedup'', PFloat (Fin 1))]]
   = Inr (join_lines
       [''[zfs] ZFS Storage Pools'',
        [],
        ''[zfs] tank (pve1)'',
        ''  - Health: '' @ green_icon @ '' ONLINE'',
        ''  - Size: 4000 B'',
        ''  - Used: 1000 B (25.0%)'',
        ''  - Free: 3000 B'',
        ''  - Fragmentation: 7%'',
        ''  - Dedup Ratio: 1.35x'',
        [],
        ''[zfs] backup (unknown)'',
        ''  - Health: '' @ red_icon @ '' UNKNOWN'',
        ''  - Size: 0 B'',
        ''  - Used: 0 B (0.0%)'',
        ''  - Free: 0 B'',
        ''  - Fragmentation: 0%''])"
proof -
  let ?pools = "[PDict [(''name'', PStr ''tank''), (''node'', PStr ''pve1''), (''health'', PStr ''ONLINE''),
             (''size'', PInt 4000), (''alloc'', PInt 1000), (''free'', PInt 3000),
             (''frag'', PInt 7), (''dedup'', PFloat (Fin (3039929748475085 / 2251799813685248)))],
      PDict [(''name'', PStr ''backup''), (''dedup'', PFloat (Fin 1))]]"
  have "25 < max_double"
    unfolding max_double_def by simp
  then have m: "\<not> max_double < 25" "\<not> max_double < 1 / 4" "\<not> max_double * 4 < 1"
    by linarith+
  have r: "zfs_pool_list sample_env ?pools
   = Inr (join_lines
       [''[zfs] ZFS Storage Pools'',
        [],
        ''[zfs] tank (pve1)'',
        ''  - Health: '' @ green_icon @ '' ONLINE'',
        ''  - Size: 4000 B'',
        ''  - Used: 1000 B (25.0%)'',
        ''  - Free: 3000 B'',
        ''  - Fragmentation: 7%'',
        ''  - Dedup Ratio: 1.35x'',
        [],
        ''[zfs] backup (unknown)'',
        ''  - Health: '' @ red_icon @ '' UNKNOWN'',
        ''  - Size: 0 B'',
        ''  - Used: 0 B (0.0%)'',
        ''  - Free: 0 B'',
        ''  - Fragmentation: 0%''])"
    by (simp add: zfs_pool_list_def Let_def sample_env_def sample_bytes_def dict_get_def
        dedup_lines_def health_icon_def percent_of_def py_truediv_def int_truediv_def mk_float_def m
        fixed_zero fixed_25 fixed_135 show_int_def show_nat.simps digit_char_def)
  have ne: "?pools \<noteq> []" by simp
  from dedup_ratio_line [OF r ne] r show ?thesis by simp
qed

text \<open>
  Claim C9. Take a pool-detail record without the raw-status field and the same record
  with the field set to a text. If the text is not empty, the rendering of the second is
  the rendering of the first (header, scan, errors and disk layout, in this order)
  followed by a blank line, the heading of the raw section and the non-blank lines of
  the text, each indented by four spaces; if the text is empty, and for the record
  without the field, there is no such section.
\<close>

theorem raw_fallback_section:
  assumes "map_of pool ''raw_status'' = None"
    and "map_of with_raw = (map_of pool)(''raw_status'' \<mapsto> PStr s)"
  shows "zfs_pool_detail env with_raw =
           (case zfs_pool_detail env pool of
              Inl e \<Rightarrow> Inl e
            | Inr text \<Rightarrow>
                Inr (if s = [] then text
                     else text @ newline # join_lines ([[], ''  Raw Pool Status:''] @ raw_lines s)))
     \<and> list_all (starts_with ''    '') (raw_lines s)
     \<and> zfs_pool_detail env pool =
           bindE (scan_lines env (dict_get pool ''scan'' (PDict []))) (\<lambda>scan_part.
           bindE (layout_lines env (dict_get pool ''children'' (PList []))) (\<lambda>layout.
           Inr (join_lines
                 (detail_header env pool @ scan_part
                  @ [''  - Errors: '' @ py_str env (dict_get pool ''errors'' (PStr ''No known data errors''))]
                  @ layout))))"
proof -
  have "map_of with_raw = map_of ((''raw_status'', PStr s) # pool)"
    using assms(2) by simp
  then have "zfs_pool_detail env with_raw = zfs_pool_detail env ((''raw_status'', PStr s) # pool)"
    by (rule zfs_pool_detail_cong)
  with raw_status_first [OF assms(1), of env s] show ?thesis by simp
qed

theorem raw_fallback_section_witness:
  "zfs_pool_detail sample_env (pool_detail_result sample_env ''pve1'' ''tank''
       (PStr (''pool: tank'' @ [newline] @ '' state: DEGRADED'' @ [newline] @ ''   '')))
     = Inr (join_lines
         [''[zfs] ZFS Pool: tank'',
          ''  - Node: pve1'',
          ''  - Health: '' @ yellow_icon @ '' DEGRADED'',
          ''  - State: See raw output'',
          ''  - Errors: Check raw output'',
          [],
          ''  Raw Pool Status:'',
          ''    pool: tank'',
          ''     state: DEGRADED''])"
proof -
  let ?raw = "''pool: tank'' @ [newline] @ '' state: DEGRADED'' @ [newline] @ ''   ''"
  let ?r = "pool_detail_result sample_env ''pve1'' ''tank'' (PStr ?raw)"
  have a: "map_of (take 9 ?r) ''raw_status'' = None"
    by simp
  have b: "map_of ?r = (map_of (take 9 ?r))(''raw_status'' \<mapsto> PStr ?raw)"
    by (auto simp: fun_eq_iff)
  have c: "zfs_pool_detail sample_env ?r
     = Inr (join_lines
         [''[zfs] ZFS Pool: tank'',
          ''  - Node: pve1'',
          ''  - Health: '' @ yellow_icon @ '' DEGRADED'',
          ''  - State: See raw output'',
          ''  - Errors: Check raw output'',
          [],
          ''  Raw Pool Status:'',
          ''    pool: tank'',
          ''     state: DEGRADED''])"
    by code_simp
  from raw_fallback_section [OF a b, of sample_env] c show ?thesis
    by simp
qed

section \<open>The claims about the sweeps of the normalisers\<close>

text \<open>
  Claim C8. When the content query of a storage answers, the answer can be turned into a
  sorted volume list, and the status query raises, the record of the storage is built
  all the same, with this volume list and with total, used and available equal to 0, and
  the loop appends it and goes on without logging anything: the failure of the status
  query fails neither the item nor the operation.
\<close>

theorem status_failure_degrades:
  assumes "content_get cl node store_name = Inr content"
    and "status_get cl node store_name = Inl e"
    and "bindE (py_iter content) (\<lambda>items. bindE (volume_entries items) (sort_by_size env)) = Inr volumes"
    and "map_of store ''storage'' = Some store_name"
  shows "usage_record cl env node (PDict store) store_name =
           Inr (PDict
             [(''storage'', store_name),
              (''type'', dict_get store ''type'' (PStr ''unknown'')),
              (''total'', PInt 0),
              (''used'', PInt 0),
              (''available'', PInt 0),
              (''volumes'', PList (map PDict volumes)),
              (''volume_count'', PInt (int (length volumes)))])
     \<and> usage_loop cl env node None (PDict store # rest) usage_data logged =
         usage_loop cl env node None rest
           (usage_data @
            [PDict
              [(''storage'', store_name),
               (''type'', dict_get store ''type'' (PStr ''unknown'')),
               (''total'', PInt 0),
               (''used'', PInt 0),
               (''available'', PInt 0),
               (''volumes'', PList (map PDict volumes)),
               (''volume_count'', PInt (int (length volumes)))]])
           logged"
proof -
  from assms(3) obtain items unsorted where
    i: "py_iter content = Inr items" and u: "volume_entries items = Inr unsorted"
    and s: "sort_by_size env unsorted = Inr volumes"
    by (auto simp: bindE_Inr_iff)
  have t: "status_totals cl node store_name = (PInt 0, PInt 0, PInt 0)"
    using assms(2) by (simp add: status_totals_def)
  have r: "usage_record cl env node (PDict store) store_name =
           Inr (PDict
             [(''storage'', store_name),
              (''type'', dict_get store ''type'' (PStr ''unknown'')),
              (''total'', PInt 0),
              (''used'', PInt 0),
              (''available'', PInt 0),
              (''volumes'', PList (map PDict volumes)),
              (''volume_count'', PInt (int (length volumes)))])"
    using assms(1) i u s t by (simp add: usage_record_def)
  show ?thesis
    using r assms(4) by simp
qed

theorem status_failure_degrades_witness:
  "usage_record sample_client sample_env ''pve1'' (PDict [(''storage'', PStr ''local''), (''type'', PStr ''dir'')])
       (PStr ''local'')
     = Inr (PDict
         [(''storage'', PStr ''local''),
          (''type'', PStr ''dir''),
          (''total'', PInt 0),
          (''used'', PInt 0),
          (''available'', PInt 0),
          (''volumes'', PList (map (PDict \<circ> sample_volume) [11, 10, 9, 8, 7, 6, 5, 4, 3, 2, 1])),
          (''volume_count'', PInt 11)])
   \<and> get_storage_usage sample_tool sample_client sample_env ''pve1'' None
     = ([], Inr (PList [PDict
         [(''storage'', PStr ''local''),
          (''type'', PStr ''dir''),
          (''total'', PInt 0),
          (''used'', PInt 0),
          (''available'', PInt 0),
          (''volumes'', PList (map (PDict \<circ> sample_volume) [11, 10, 9, 8, 7, 6, 5, 4, 3, 2, 1])),
          (''volume_count'', PInt 11)]]))"
proof -
  have c: "content_get sample_client ''pve1'' (PStr ''local'') = Inr sample_content"
    and s: "status_get sample_client ''pve1'' (PStr ''local'') = Inl (External ''500 status unavailable'')"
    and g: "storage_get sample_client ''pve1''
            = Inr (PList [PDict [(''storage'', PStr ''local''), (''type'', PStr ''dir'')]])"
    by (simp_all add: sample_client_def)
  have m: "map_of [(''storage'', PStr ''local''), (''type'', PStr ''dir'')] ''storage'' = Some (PStr ''local'')"
    by simp
  from status_failure_degrades [OF c s sample_volumes m, of "[]" "[]" "[]"] g
  show ?thesis
    by (simp add: get_storage_usage_def sample_tool_def dict_get_def)
qed

text \<open>
  Claim C4. In a sweep over all nodes in which every per-node pool query either raises
  or succeeds with a list of pools, \<^verbatim>\<open>list_zfs_pools\<close> logs one warning for each failing
  node, naming the node and its error, and hands exactly the pool records of the
  succeeding nodes, in order, to the result wrapper: no exception of a per-node query
  reaches the caller.
\<close>

theorem partial_sweep_succeeds:
  assumes "nodes_get cl = Inr (PList infos)"
    and "map (\<lambda>i. py_item i ''node'') infos = map Inr names"
    and "list_all (raises_or_succeeds cl) names"
  shows "list_zfs_pools tb cl None =
           (failing_warnings cl names,
            case format_response tb (PList (succeeding_pools cl names)) ''zfs_pools'' of
              Inl e \<Rightarrow> Inl (Failure ''list ZFS pools'' e)
            | Inr c \<Rightarrow> Inr c)"
  using assms(1) sweep_nodes_partial [OF assms(2) assms(3), of "[]" "[]"]
  by (simp add: list_zfs_pools_def nodes_to_query_def handle_error_def split: sum.splits)

theorem partial_sweep_succeeds_witness:
  "list_zfs_pools sample_tool sample_client None =
     ([(Warning, ''Could not query ZFS pools on node %s: %s'',
        [AVal (PStr ''pve2''), AErr (External ''595 no route to host'')])],
      Inr (PList
        [PDict [(''name'', PStr ''tank''), (''node'', PStr ''pve1''), (''health'', PStr ''ONLINE''),
                (''size'', PInt 0), (''alloc'', PInt 0), (''free'', PInt 0), (''frag'', PInt 0),
                (''dedup'', PFloat (Fin 1))],
         PDict [(''name'', PStr ''backup''), (''node'', PStr ''pve3''), (''health'', PStr ''UNKNOWN''),
                (''size'', PInt 0), (''alloc'', PInt 0), (''free'', PInt 0), (''frag'', PInt 0),
                (''dedup'', PFloat (Fin 1))]]))"
proof -
  have a: "nodes_get sample_client
           = Inr (PList [PDict [(''node'', PStr ''pve1'')], PDict [(''node'', PStr ''pve2'')],
                         PDict [(''node'', PStr ''pve3'')]])"
    by (simp add: sample_client_def)
  have b: "map (\<lambda>i. py_item i ''node'')
             [PDict [(''node'', PStr ''pve1'')], PDict [(''node'', PStr ''pve2'')],
              PDict [(''node'', PStr ''pve3'')]]
           = map Inr [PStr ''pve1'', PStr ''pve2'', PStr ''pve3'']"
    by simp
  have c: "list_all (raises_or_succeeds sample_client) [PStr ''pve1'', PStr ''pve2'', PStr ''pve3'']"
    by (simp add: raises_or_succeeds_def sample_client_def)
  from partial_sweep_succeeds [OF a b c, of sample_tool]
  show ?thesis
    by (simp add: failing_warnings_def succeeding_pools_def pool_records_def sample_client_def
        sample_tool_def node_warning_def dict_get_def)
qed

text \<open>
  Claim C6. Take the records that the loop of \<^verbatim>\<open>get_storage_usage\<close> has built and a
  rendering of them by \<^verbatim>\<open>storage_usage\<close>. The text is the title followed by one block for
  each record, and these are its lines when no rendered field holds a line break. In the
  block of a record with \<open>n\<close> volumes in its sorted list, the sixth line is the count \<open>n\<close>
  of all volumes. What follows is empty when there is no volume; otherwise it is a blank
  line, a heading, one line for each of the first ten volumes, \<open>min 10 n\<close> lines in all,
  and, exactly when \<open>n\<close> exceeds ten, one more line saying that \<open>n - 10\<close> more volumes
  exist. When the sizes are numbers, or are all strings, none of the volumes left out is
  larger than any of the ten listed.
\<close>

theorem top_ten_volumes:
  assumes "usage_loop cl env node storage stores [] [] = (logged, Inr records)"
    and "storage_usage env records = Inr text"
    and "records \<noteq> []"
  shows "\<exists>bs. text = join_lines ((RESOURCES env ''storage'' @ '' Storage Usage Breakdown'') # concat bs)
     \<and> (list_all (\<lambda>l. newline \<notin> set l)
           ((RESOURCES env ''storage'' @ '' Storage Usage Breakdown'') # concat bs)
          \<longrightarrow> split_on newline text
              = (RESOURCES env ''storage'' @ '' Storage Usage Breakdown'') # concat bs)
     \<and> list_all2
          (\<lambda>record b. \<exists>r volumes vls. record = PDict r
             \<and> dict_get r ''volumes'' (PList []) = PList (map PDict volumes)
             \<and> length (take 6 b) = 6
             \<and> b ! 5 = ''  Volumes: '' @ show_int (int (length volumes))
             \<and> blocks (volume_line env) (map PDict (take 10 volumes)) = Inr vls
             \<and> length vls = min 10 (length volumes)
             \<and> drop 6 b =
                 (if volumes = [] then []
                  else [[], ''  Top Space Consumers:''] @ vls
                       @ (if 10 < length volumes
                          then [''    ... and '' @ show_int (int (length volumes) - 10)
                                @ '' more volumes'']
                          else []))
             \<and> (list_all (\<lambda>v. num_key (dict_get v ''size'' PNone) \<noteq> None) volumes \<longrightarrow>
                  list_all
                    (\<lambda>v. list_all
                           (\<lambda>w. the (num_key (dict_get w ''size'' PNone))
                                  \<le> the (num_key (dict_get v ''size'' PNone)))
                           (drop 10 volumes))
                    (take 10 volumes))
             \<and> (list_all (\<lambda>v. py_strkey (dict_get v ''size'' PNone) \<noteq> None) volumes \<longrightarrow>
                  list_all
                    (\<lambda>v. list_all
                           (\<lambda>w. the (py_strkey (dict_get w ''size'' PNone))
                                  \<le> the (py_strkey (dict_get v ''size'' PNone)))
                           (drop 10 volumes))
                    (take 10 volumes)))
          records bs"
proof -
  from usage_loop_records [OF assms(1)]
  have made: "list_all (\<lambda>rec. \<exists>store name. usage_record cl env node store name = Inr rec) records"
    by simp
  from assms(2,3) obtain body where b: "blocks (usage_block env) records = Inr body"
    and t: "text = join_lines ((RESOURCES env ''storage'' @ '' Storage Usage Breakdown'') # body)"
    by (auto simp: storage_usage_def bindE_Inr_iff)
  from b obtain bs where bs: "list_all2 (\<lambda>x b. usage_block env x = Inr b) records bs"
    and body: "body = concat bs"
    by (auto dest: blocks_Inr)
  have lines: "split_on newline text
      = (RESOURCES env ''storage'' @ '' Storage Usage Breakdown'') # concat bs"
    if "list_all (\<lambda>l. newline \<notin> set l)
          ((RESOURCES env ''storage'' @ '' Storage Usage Breakdown'') # concat bs)"
    unfolding t body using that by (intro split_join_lines) simp_all
  have both: "list_all2
      (\<lambda>x b. usage_block env x = Inr b
             \<and> (\<exists>store name. usage_record cl env node store name = Inr x)) records bs"
    using bs made by (auto simp: list_all2_conv_all_nth list_all_length)
  have blocks: "list_all2
          (\<lambda>record b. \<exists>r volumes vls. record = PDict r
             \<and> dict_get r ''volumes'' (PList []) = PList (map PDict volumes)
             \<and> length (take 6 b) = 6
             \<and> b ! 5 = ''  Volumes: '' @ show_int (int (length volumes))
             \<and> blocks (volume_line env) (map PDict (take 10 volumes)) = Inr vls
             \<and> length vls = min 10 (length volumes)
             \<and> drop 6 b =
                 (if volumes = [] then []
                  else [[], ''  Top Space Consumers:''] @ vls
                       @ (if 10 < length volumes
                          then [''    ... and '' @ show_int (int (length volumes) - 10)
                                @ '' more volumes'']
                          else []))
             \<and> (list_all (\<lambda>v. num_key (dict_get v ''size'' PNone) \<noteq> None) volumes \<longrightarrow>
                  list_all
                    (\<lambda>v. list_all
                           (\<lambda>w. the (num_key (dict_get w ''size'' PNone))
                                  \<le> the (num_key (dict_get v ''size'' PNone)))
                           (drop 10 volumes))
                    (take 10 volumes))
             \<and> (list_all (\<lambda>v. py_strkey (dict_get v ''size'' PNone) \<noteq> None) volumes \<longrightarrow>
                  list_all
                    (\<lambda>v. list_all
                           (\<lambda>w. the (py_strkey (dict_get w ''size'' PNone))
                                  \<le> the (py_strkey (dict_get v ''size'' PNone)))
                           (drop 10 volumes))
                    (take 10 volumes)))
          records bs"
    using both
  proof (rule list_all2_mono)
    fix x b
    assume "usage_block env x = Inr b \<and> (\<exists>store name. usage_record cl env node store name = Inr x)"
    then obtain store name where ub: "usage_block env x = Inr b"
      and ur: "usage_record cl env node store name = Inr x"
      by blast
    from usage_block_lines [OF ub ur]
    show "\<exists>r volumes vls. x = PDict r
             \<and> dict_get r ''volumes'' (PList []) = PList (map PDict volumes)
             \<and> length (take 6 b) = 6
             \<and> b ! 5 = ''  Volumes: '' @ show_int (int (length volumes))
             \<and> blocks (volume_line env) (map PDict (take 10 volumes)) = Inr vls
             \<and> length vls = min 10 (length volumes)
             \<and> drop 6 b =
                 (if volumes = [] then []
                  else [[], ''  Top Space Consumers:''] @ vls
                       @ (if 10 < length volumes
                          then [''    ... and '' @ show_int (int (length volumes) - 10)
                                @ '' more volumes'']
                          else []))
             \<and> (list_all (\<lambda>v. num_key (dict_get v ''size'' PNone) \<noteq> None) volumes \<longrightarrow>
                  list_all
                    (\<lambda>v. list_all
                           (\<lambda>w. the (num_key (dict_get w ''size'' PNone))
                                  \<le> the (num_key (dict_get v ''size'' PNone)))
                           (drop 10 volumes))
                    (take 10 volumes))
             \<and> (list_all (\<lambda>v. py_strkey (dict_get v ''size'' PNone) \<noteq> None) volumes \<longrightarrow>
                  list_all
                    (\<lambda>v. list_all
                           (\<lambda>w. the (py_strkey (dict_get w ''size'' PNone))
                                  \<le> the (py_strkey (dict_get v ''size'' PNone)))
                           (drop 10 volumes))
                    (take 10 volumes))" .
  qed
  from t body have "text = join_lines ((RESOURCES env ''storage'' @ '' Storage Usage Breakdown'') # concat bs)"
    by simp
  with lines blocks show ?thesis by blast
qed

theorem top_ten_volumes_witness:
  "storage_usage sample_env
     [PDict
       [(''storage'', PStr ''local''),
        (''type'', PStr ''dir''),
        (''total'', PInt 0),
        (''used'', PInt 0),
        (''available'', PInt 0),
        (''volumes'', PList (map PDict (map sample_volume [11, 10, 9, 8, 7, 6, 5, 4, 3, 2, 1]))),
        (''volume_count'', PInt 11)]]
   = Inr (join_lines
         [''[storage] Storage Usage Breakdown'',
          [],
          ''[storage] local (dir)'',
          ''  Total: 0 B'',
          ''  Used: 0 B (0.0%)'',
          ''  Available: 0 B'',
          ''  Volumes: 11'',
          [],
          ''  Top Space Consumers:'',
          ''    - vm-100-disk-11.raw (VM 100): 11264 B [images]'',
          ''    - vm-100-disk-10.raw (VM 100): 10240 B [images]'',
          ''    - vm-100-disk-9.raw (VM 100): 9216 B [images]'',
          ''    - vm-100-disk-8.raw (VM 100): 8192 B [images]'',
          ''    - vm-100-disk-7.raw (VM 100): 7168 B [images]'',
          ''    - vm-100-disk-6.raw (VM 100): 6144 B [images]'',
          ''    - vm-100-disk-5.raw (VM 100): 5120 B [images]'',
          ''    - vm-100-disk-4.raw (VM 100): 4096 B [images]'',
          ''    - vm-100-disk-3.raw (VM 100): 3072 B [images]'',
          ''    - vm-100-disk-2.raw (VM 100): 2048 B [images]'',
          ''    ... and 1 more volumes''])"
proof -
  let ?rec = "PDict
       [(''storage'', PStr ''local''),
        (''type'', PStr ''dir''),
        (''total'', PInt 0),
        (''used'', PInt 0),
        (''available'', PInt 0),
        (''volumes'', PList (map PDict (map sample_volume [11, 10, 9, 8, 7, 6, 5, 4, 3, 2, 1]))),
        (''volume_count'', PInt 11)]"
  have a: "usage_loop sample_client sample_env ''pve1'' None
             [PDict [(''storage'', PStr ''local''), (''type'', PStr ''dir'')]] [] []
           = ([], Inr [?rec])"
    by (simp add: sample_usage_record)
  have b: "storage_usage sample_env [?rec]
   = Inr (join_lines
         [''[storage] Storage Usage Breakdown'',
          [],
          ''[storage] local (dir)'',
          ''  Total: 0 B'',
          ''  Used: 0 B (0.0%)'',
          ''  Available: 0 B'',
          ''  Volumes: 11'',
          [],
          ''  Top Space Consumers:'',
          ''    - vm-100-disk-11.raw (VM 100): 11264 B [images]'',
          ''    - vm-100-disk-10.raw (VM 100): 10240 B [images]'',
          ''    - vm-100-disk-9.raw (VM 100): 9216 B [images]'',
          ''    - vm-100-disk-8.raw (VM 100): 8192 B [images]'',
          ''    - vm-100-disk-7.raw (VM 100): 7168 B [images]'',
          ''    - vm-100-disk-6.raw (VM 100): 6144 B [images]'',
          ''    - vm-100-disk-5.raw (VM 100): 5120 B [images]'',
          ''    - vm-100-disk-4.raw (VM 100): 4096 B [images]'',
          ''    - vm-100-disk-3.raw (VM 100): 3072 B [images]'',
          ''    - vm-100-disk-2.raw (VM 100): 2048 B [images]'',
          ''    ... and 1 more volumes''])"
    by (simp add: storage_usage_def Let_def sample_env_def sample_bytes_def sample_volume_def
        dict_get_def top_consumers_def percent_of_def fixed_zero show_int_def show_nat.simps
        digit_char_def)
  have ne: "[?rec] \<noteq> []" by simp
  from top_ten_volumes [OF a b ne] b show ?thesis by simp
qed

end
